theory Spec2Isabelle
  imports Complex_Main
begin

section \<open>JavaScript numbers\<close>

text \<open>
  Every number of the program is a JavaScript \<^verbatim>\<open>number\<close>. The model keeps the three
  special values apart from the finite ones, because the code tests for them
  (\<^verbatim>\<open>Number.isFinite\<close>, \<^verbatim>\<open>Number.isNaN\<close>, comparisons that are false on NaN).
  Finite values are modelled as exact reals: the rounding of binary floating point, the
  overflow of a finite computation to an infinity, and the sign of zero are not modelled.
\<close>

datatype jsnum = Num real | PInf | NInf | NaN

fun js_neg :: "jsnum \<Rightarrow> jsnum" where
  "js_neg (Num a) = Num (- a)"
| "js_neg PInf = NInf"
| "js_neg NInf = PInf"
| "js_neg NaN = NaN"

fun js_add :: "jsnum \<Rightarrow> jsnum \<Rightarrow> jsnum" where
  "js_add NaN b = NaN"
| "js_add a NaN = NaN"
| "js_add (Num a) (Num b) = Num (a + b)"
| "js_add PInf NInf = NaN"
| "js_add NInf PInf = NaN"
| "js_add PInf b = PInf"
| "js_add a PInf = PInf"
| "js_add NInf b = NInf"
| "js_add a NInf = NInf"

definition js_sub :: "jsnum \<Rightarrow> jsnum \<Rightarrow> jsnum" where
  "js_sub a b = js_add a (js_neg b)"

text \<open>The sign of a number, for the products and quotients with an infinity.\<close>

fun js_sign :: "jsnum \<Rightarrow> int option" where
  "js_sign (Num a) = Some (if a < 0 then -1 else if a = 0 then 0 else 1)"
| "js_sign PInf = Some 1"
| "js_sign NInf = Some (-1)"
| "js_sign NaN = None"

definition js_inf_of_sign :: "int \<Rightarrow> jsnum" where
  "js_inf_of_sign s = (if s = 0 then NaN else if s < 0 then NInf else PInf)"

fun js_mul :: "jsnum \<Rightarrow> jsnum \<Rightarrow> jsnum" where
  "js_mul NaN b = NaN"
| "js_mul a NaN = NaN"
| "js_mul (Num a) (Num b) = Num (a * b)"
| "js_mul a b = js_inf_of_sign (the (js_sign a) * the (js_sign b))"

fun js_div :: "jsnum \<Rightarrow> jsnum \<Rightarrow> jsnum" where
  "js_div NaN b = NaN"
| "js_div a NaN = NaN"
| "js_div (Num a) (Num b) =
     (if b = 0 then js_inf_of_sign (the (js_sign (Num a))) else Num (a / b))"
| "js_div (Num a) b = Num 0"
| "js_div a (Num b) =
     js_inf_of_sign (the (js_sign a) * (if b < 0 then -1 else 1))"
| "js_div a b = NaN"

fun js_abs :: "jsnum \<Rightarrow> jsnum" where
  "js_abs (Num a) = Num \<bar>a\<bar>"
| "js_abs PInf = PInf"
| "js_abs NInf = PInf"
| "js_abs NaN = NaN"

text \<open>Comparisons: each is false as soon as an operand is NaN.\<close>

fun js_lt :: "jsnum \<Rightarrow> jsnum \<Rightarrow> bool" where
  "js_lt NaN b = False"
| "js_lt a NaN = False"
| "js_lt (Num a) (Num b) = (a < b)"
| "js_lt a NInf = False"
| "js_lt PInf b = False"
| "js_lt a b = True"

fun js_le :: "jsnum \<Rightarrow> jsnum \<Rightarrow> bool" where
  "js_le NaN b = False"
| "js_le a NaN = False"
| "js_le (Num a) (Num b) = (a \<le> b)"
| "js_le NInf b = True"
| "js_le a PInf = True"
| "js_le a b = False"

definition js_gt :: "jsnum \<Rightarrow> jsnum \<Rightarrow> bool" where
  "js_gt a b = js_lt b a"

definition js_ge :: "jsnum \<Rightarrow> jsnum \<Rightarrow> bool" where
  "js_ge a b = js_le b a"

text \<open>\<^verbatim>\<open>Math.max\<close> and \<^verbatim>\<open>Math.min\<close> of two numbers: NaN as soon as an operand is NaN.\<close>

fun js_max :: "jsnum \<Rightarrow> jsnum \<Rightarrow> jsnum" where
  "js_max NaN b = NaN"
| "js_max a NaN = NaN"
| "js_max a b = (if js_lt a b then b else a)"

fun js_min :: "jsnum \<Rightarrow> jsnum \<Rightarrow> jsnum" where
  "js_min NaN b = NaN"
| "js_min a NaN = NaN"
| "js_min a b = (if js_lt b a then b else a)"

text \<open>\<^verbatim>\<open>Math.max(...xs)\<close> starts from minus infinity, \<^verbatim>\<open>Math.min(...xs)\<close> from infinity.\<close>

definition js_max_list :: "jsnum list \<Rightarrow> jsnum" where
  "js_max_list xs = foldl js_max NInf xs"

definition js_min_list :: "jsnum list \<Rightarrow> jsnum" where
  "js_min_list xs = foldl js_min PInf xs"

text \<open>\<^verbatim>\<open>Math.round\<close> rounds to the nearest integer, a half upwards.\<close>

fun js_round :: "jsnum \<Rightarrow> jsnum" where
  "js_round (Num a) = Num (of_int \<lfloor>a + 1 / 2\<rfloor>)"
| "js_round a = a"

fun js_isFinite :: "jsnum \<Rightarrow> bool" where
  "js_isFinite (Num a) = True"
| "js_isFinite a = False"

fun js_isNaN :: "jsnum \<Rightarrow> bool" where
  "js_isNaN NaN = True"
| "js_isNaN a = False"

text \<open>Truthiness of a number: zero and NaN are falsy.\<close>

fun js_truthy :: "jsnum \<Rightarrow> bool" where
  "js_truthy (Num a) = (a \<noteq> 0)"
| "js_truthy NaN = False"
| "js_truthy a = True"

fun js_cos :: "jsnum \<Rightarrow> jsnum" where
  "js_cos (Num a) = Num (cos a)"
| "js_cos a = NaN"

fun js_sin :: "jsnum \<Rightarrow> jsnum" where
  "js_sin (Num a) = Num (sin a)"
| "js_sin a = NaN"

section \<open>The parser's Y flip\<close>

text \<open>
  \<^verbatim>\<open>CixParser.flipY(value, sheetHeight)\<close>: the guard \<^verbatim>\<open>!sheetHeight || Number.isNaN(sheetHeight)\<close>,
  then \<^verbatim>\<open>h <= 0\<close>, then \<^verbatim>\<open>h - value\<close>.
\<close>

definition flipY :: "jsnum \<Rightarrow> jsnum \<Rightarrow> jsnum" where
  "flipY v sheetHeight =
     (if \<not> js_truthy sheetHeight \<or> js_isNaN sheetHeight then v
      else if js_le sheetHeight (Num 0) then v
      else js_sub sheetHeight v)"

section \<open>Data model (\<^verbatim>\<open>types.ts\<close>)\<close>

text \<open>
  The interfaces of \<^verbatim>\<open>types.ts\<close> as records. A field that is optional in the source
  (\<^verbatim>\<open>z?: number\<close>) has an option type. Field names that two interfaces share, or that
  would hide a variable (\<^verbatim>\<open>x\<close>, \<^verbatim>\<open>y\<close>, \<^verbatim>\<open>id\<close>), carry a prefix.
\<close>

record vec2 =
  vx :: jsnum
  vy :: jsnum

datatype routingPointType = Start | Line | Arc

record routingPoint =
  pt_x :: jsnum
  pt_y :: jsnum
  pt_z :: "jsnum option"
  pt_type :: routingPointType
  pt_center :: "vec2 option"

record routingPath =
  path_id :: "jsnum option"
  points :: "routingPoint list"
  params :: "string \<rightharpoonup> string"
  max_depth :: jsnum
  diameter :: "jsnum option"

record drillHole =
  hole_x :: jsnum
  hole_y :: jsnum
  hole_diameter :: jsnum
  hole_depth :: jsnum
  hole_id :: "string option"

text \<open>The metadata object that \<^verbatim>\<open>createPanelFromLabel\<close> gives a label.\<close>

record labelMetadata =
  x_position :: jsnum
  y_position :: jsnum
  y_position_raw :: jsnum
  rotation :: jsnum
  rotation_raw :: jsnum
  label_data :: string
  label_name :: string

record panelSpecification =
  spec_id :: string
  spec_width :: jsnum
  spec_height :: jsnum
  spec_thickness :: jsnum
  spec_geometry :: "unit list"
  spec_holes :: "drillHole list"
  spec_edges :: "(string \<times> unit) list"
  spec_metadata :: labelMetadata

record recoveredPanel =
  polygon :: "vec2 list"
  coords :: "vec2 list option"
  panel_holes :: "vec2 list list option"
  drillHoles :: "drillHole list option"
  area :: jsnum
  width :: jsnum
  height :: jsnum
  panel_bounds :: "jsnum \<times> jsnum \<times> jsnum \<times> jsnum"

record removedPolygon =
  removed_outer :: "vec2 list"
  removed_holes :: "vec2 list list option"

record cixMetadata =
  sheet_width :: "jsnum option"
  sheet_height :: "jsnum option"
  sheet_thickness :: "jsnum option"
  routing_paths :: "routingPath list option"
  drilling :: "drillHole list option"
  removed_polygons :: "removedPolygon list option"
  kerf_polygons :: "vec2 list list option"

record cixData =
  filename :: string
  sheetId :: string
  panels :: "panelSpecification list"
  raw_content :: string
  parse_errors :: "string list"
  metadata :: cixMetadata

text \<open>The metadata of a fresh document, \<^verbatim>\<open>{}\<close>: no field is set.\<close>

definition noMetadata :: cixMetadata where
  "noMetadata = \<lparr>sheet_width = None, sheet_height = None, sheet_thickness = None,
     routing_paths = None, drilling = None, removed_polygons = None, kerf_polygons = None\<rparr>"

section \<open>Geometry kernel (\<^verbatim>\<open>panelRecovery.ts\<close>)\<close>

text \<open>Points of the clipping library: \<^verbatim>\<open>{X, Y}\<close> on the integer grid scaled by 1000.\<close>

record intPoint =
  ipX :: jsnum
  ipY :: jsnum

type_synonym path = "intPoint list"
type_synonym paths = "intPoint list list"

definition SCALE :: jsnum where
  "SCALE = Num 1000"

definition toPath :: "vec2 list \<Rightarrow> path" where
  "toPath pts =
     map (\<lambda>p. \<lparr>ipX = js_round (js_mul (vx p) SCALE), ipY = js_round (js_mul (vy p) SCALE)\<rparr>) pts"

definition fromPath :: "path \<Rightarrow> vec2 list" where
  "fromPath pth = map (\<lambda>p. \<lparr>vx = js_div (ipX p) SCALE, vy = js_div (ipY p) SCALE\<rparr>) pth"

text \<open>
  \<^verbatim>\<open>polygonArea\<close>: the loop over \<open>i\<close> adds \<open>p1.x * p2.y - p2.x * p1.y\<close> with
  \<open>p2 = path[(i + 1) % path.length]\<close>; the result is \<open>Math.abs(sum) / 2\<close>. Where the
  products or the sum overflow in the code (coordinates of about \<open>10\<^sup>1\<^sup>5\<^sup>4\<close> and more) the
  sum is infinite or NaN there and finite here.
\<close>

definition shoelaceTerm :: "vec2 list \<Rightarrow> nat \<Rightarrow> jsnum" where
  "shoelaceTerm pth i =
     (let p1 = pth ! i; p2 = pth ! ((i + 1) mod length pth)
      in js_sub (js_mul (vx p1) (vy p2)) (js_mul (vx p2) (vy p1)))"

definition shoelaceSum :: "vec2 list \<Rightarrow> jsnum" where
  "shoelaceSum pth = foldl (\<lambda>sum i. js_add sum (shoelaceTerm pth i)) (Num 0) [0..<length pth]"

definition polygonArea :: "vec2 list \<Rightarrow> jsnum" where
  "polygonArea pth = js_div (js_abs (shoelaceSum pth)) (Num 2)"

text \<open>\<^verbatim>\<open>circlePath(center, radius, segments)\<close>; \<^verbatim>\<open>Math.PI\<close> is taken as \<open>pi\<close>.\<close>

definition circlePath :: "vec2 \<Rightarrow> jsnum \<Rightarrow> nat \<Rightarrow> vec2 list" where
  "circlePath center radius segments =
     (if \<not> js_isFinite (vx center) \<or> \<not> js_isFinite (vy center) \<or> js_le radius (Num 0) then []
      else
        let segs = max 8 segments
        in map (\<lambda>i. let a = Num (pi * 2 * real i / real segs)
                    in \<lparr>vx = js_add (vx center) (js_mul (js_cos a) radius),
                        vy = js_add (vy center) (js_mul (js_sin a) radius)\<rparr>)
             [0..<segs])"

definition bounds :: "vec2 list \<Rightarrow> jsnum \<times> jsnum \<times> jsnum \<times> jsnum" where
  "bounds pth =
     (let xs = map vx pth; ys = map vy pth
      in (js_min_list xs, js_min_list ys, js_max_list xs, js_max_list ys))"

subsection \<open>The clipping library\<close>

text \<open>
  The boolean operations and the offset are done by the external library
  \<^verbatim>\<open>clipper-lib\<close>, which is not part of the repository: the model takes its operations
  as a parameter. Each may throw; \<open>Inl msg\<close> is an error thrown with message \<open>msg\<close>.
  \<^item> \<open>cl_offset path delta\<close>: \<^verbatim>\<open>ClipperOffset(2, 0.25)\<close>, \<^verbatim>\<open>AddPath(path, jtMiter, etOpenButt)\<close>,
    \<^verbatim>\<open>Execute(sol, delta)\<close>;
  \<^item> \<open>cl_union paths\<close>: \<^verbatim>\<open>Execute(ctUnion, ...)\<close> on the subject \<open>paths\<close>, non-zero filling;
  \<^item> \<open>cl_difference subject clip\<close>: \<^verbatim>\<open>Execute(ctDifference, ...)\<close> into a list of paths;
  \<^item> \<open>cl_differenceTree subject clip\<close>: the same into a \<^verbatim>\<open>PolyTree\<close>, given by the
    children of its root;
  \<^item> \<open>cl_area path\<close>: \<^verbatim>\<open>ClipperLib.Area(path)\<close>, \<open>None\<close> when it is missing, throws or
    returns no number.
  A node of the tree has a contour, the flag \<^verbatim>\<open>IsHole\<close> and its children; the several
  accessors that the code tries for each of them (\<^verbatim>\<open>toPathSafe\<close>, \<^verbatim>\<open>getChildren\<close>,
  \<^verbatim>\<open>isHole\<close>) are these three fields.
\<close>

datatype polyNode = PolyNode (contour: path) (isHole: bool) (childs: "polyNode list")

record clipper =
  cl_offset :: "path \<Rightarrow> jsnum \<Rightarrow> string + paths"
  cl_union :: "paths \<Rightarrow> string + paths"
  cl_difference :: "paths \<Rightarrow> paths \<Rightarrow> string + paths"
  cl_differenceTree :: "paths \<Rightarrow> paths \<Rightarrow> string + polyNode list"
  cl_area :: "path \<Rightarrow> jsnum option"

text \<open>Sequencing of computations that may throw.\<close>

definition ebind :: "'e + 'a \<Rightarrow> ('a \<Rightarrow> 'e + 'b) \<Rightarrow> 'e + 'b" where
  "ebind m f = (case m of Inl e \<Rightarrow> Inl e | Inr v \<Rightarrow> f v)"

definition offsetOpenPath :: "clipper \<Rightarrow> vec2 list \<Rightarrow> jsnum \<Rightarrow> string + paths" where
  "offsetOpenPath cl pts radius = cl_offset cl (toPath pts) (js_mul radius SCALE)"

definition unionPaths :: "clipper \<Rightarrow> paths \<Rightarrow> string + paths" where
  "unionPaths cl pths = (if pths = [] then Inr [] else cl_union cl pths)"

definition difference :: "clipper \<Rightarrow> paths \<Rightarrow> paths \<Rightarrow> string + paths" where
  "difference cl subject clip = (if subject = [] then Inr [] else cl_difference cl subject clip)"

record piece =
  piece_outer :: path
  piece_holes :: "path list"

text \<open>
  \<^verbatim>\<open>visit\<close> of \<^verbatim>\<open>differenceWithHoles\<close>: a node without contour only passes to its
  children; otherwise the contours of the children that are holes are collected, every
  child is visited, and the node itself is pushed last, when it is not a hole.
\<close>

fun visit :: "polyNode \<Rightarrow> piece list" where
  "visit (PolyNode cont hole chs) =
     (if cont = [] then concat (map visit chs)
      else
        concat (map visit chs) @
        (if \<not> hole
         then [\<lparr>piece_outer = cont,
                piece_holes = map contour (filter (\<lambda>c. isHole c \<and> contour c \<noteq> []) chs)\<rparr>]
         else []))"

definition differenceWithHoles :: "clipper \<Rightarrow> paths \<Rightarrow> paths \<Rightarrow> string + piece list" where
  "differenceWithHoles cl subject clip =
     (if subject = [] then Inr []
      else ebind (cl_differenceTree cl subject clip) (\<lambda>roots. Inr (concat (map visit roots))))"

subsection \<open>Depth of a routing path\<close>

text \<open>
  \<^verbatim>\<open>pathDepth\<close>. The conversion \<^verbatim>\<open>Number(v)\<close> of a parameter string is JavaScript's own;
  it is the parameter \<open>toNumber\<close>. A parameter that is absent is \<^verbatim>\<open>undefined\<close>, whose
  conversion is NaN.
\<close>

definition tryParse :: "(string \<Rightarrow> jsnum) \<Rightarrow> string option \<Rightarrow> jsnum" where
  "tryParse toNumber v =
     (let n = (case v of None \<Rightarrow> NaN | Some s \<Rightarrow> toNumber s)
      in if js_isFinite n then js_abs n else Num 0)"

definition pathDepth :: "(string \<Rightarrow> jsnum) \<Rightarrow> routingPath \<Rightarrow> jsnum" where
  "pathDepth toNumber p =
     (let depth = js_abs (max_depth p);
          depth = js_max depth (tryParse toNumber (params p ''PR''));
          depth = js_max depth (tryParse toNumber (params p ''DP''));
          depth = js_max depth (tryParse toNumber (params p ''ZE''));
          depth = js_max depth (tryParse toNumber (params p ''Z''))
      in depth)"

definition isThroughCut :: "(string \<Rightarrow> jsnum) \<Rightarrow> routingPath \<Rightarrow> jsnum \<Rightarrow> jsnum \<Rightarrow> bool" where
  "isThroughCut toNumber p sheetThickness depthRatio =
     (let depth = pathDepth toNumber p
      in if js_le sheetThickness (Num 0) then js_gt depth (Num 0)
         else js_ge depth (js_mul sheetThickness depthRatio))"

subsection \<open>Point in polygon\<close>

text \<open>
  \<^verbatim>\<open>pointInPolygon\<close>: the loop runs \<open>i\<close> over the indices with \<open>j\<close> the index before
  (\<open>length - 1\<close> at first), returns true at once on the boundary, and toggles \<open>inside\<close>
  at each crossing.
\<close>

definition onBoundary :: "vec2 \<Rightarrow> vec2 \<Rightarrow> vec2 \<Rightarrow> bool" where
  "onBoundary pt a b =
     (let cross = js_sub (js_mul (js_sub (vy pt) (vy a)) (js_sub (vx b) (vx a)))
                         (js_mul (js_sub (vx pt) (vx a)) (js_sub (vy b) (vy a)))
      in (js_lt (js_abs cross) (Num (1 / 10 ^ 9)) \<and>
          js_le (js_sub (js_min (vx a) (vx b)) (Num (1 / 10 ^ 9))) (vx pt) \<and>
          js_le (vx pt) (js_add (js_max (vx a) (vx b)) (Num (1 / 10 ^ 9)))) \<and>
         (js_le (js_sub (js_min (vy a) (vy b)) (Num (1 / 10 ^ 9))) (vy pt) \<and>
          js_le (vy pt) (js_add (js_max (vy a) (vy b)) (Num (1 / 10 ^ 9)))))"

definition crossesRay :: "vec2 \<Rightarrow> vec2 \<Rightarrow> vec2 \<Rightarrow> bool" where
  "crossesRay pt a b =
     (js_gt (vy a) (vy pt) \<noteq> js_gt (vy b) (vy pt) \<and>
      js_lt (vx pt)
        (js_add
           (js_div (js_mul (js_sub (vx b) (vx a)) (js_sub (vy pt) (vy a)))
              (let d = js_sub (vy b) (vy a) in if js_truthy d then d else Num (1 / 10 ^ 12)))
           (vx a)))"

fun pipLoop :: "vec2 \<Rightarrow> vec2 list \<Rightarrow> nat list \<Rightarrow> nat \<Rightarrow> bool \<Rightarrow> bool" where
  "pipLoop pt poly [] j inside = inside"
| "pipLoop pt poly (i # is) j inside =
     (let a = poly ! i; b = poly ! j
      in if onBoundary pt a b then True
         else pipLoop pt poly is i (if crossesRay pt a b then \<not> inside else inside))"

definition pointInPolygon :: "vec2 \<Rightarrow> vec2 list \<Rightarrow> bool" where
  "pointInPolygon pt poly = pipLoop pt poly [0..<length poly] (length poly - 1) False"

definition pointInPolygonWithHoles :: "vec2 \<Rightarrow> vec2 list \<Rightarrow> vec2 list list \<Rightarrow> bool" where
  "pointInPolygonWithHoles pt poly hls =
     (if \<not> pointInPolygon pt poly then False
      else \<not> list_ex (\<lambda>hole. hole \<noteq> [] \<and> pointInPolygon pt hole) hls)"

section \<open>Panel recovery (\<^verbatim>\<open>panelRecovery.ts\<close>)\<close>

subsection \<open>Attaching drill holes\<close>

text \<open>
  The inner loop of \<^verbatim>\<open>attachDrillHolesToPanels\<close> over the drill holes, for one panel. Its
  state is \<open>(polyHoles, assigned, area)\<close>. A hole is skipped when its centre is not finite,
  its radius is not positive, or its centre is not in the panel's polygon.
\<close>

definition holeCenter :: "drillHole \<Rightarrow> vec2" where
  "holeCenter hole = \<lparr>vx = hole_x hole, vy = hole_y hole\<rparr>"

definition attachStep ::
  "recoveredPanel \<Rightarrow> vec2 list list \<times> drillHole list \<times> jsnum \<Rightarrow> drillHole \<Rightarrow>
   vec2 list list \<times> drillHole list \<times> jsnum" where
  "attachStep panel st hole =
     (case st of (polyHoles, assigned, ar) \<Rightarrow>
        let cx = hole_x hole; cy = hole_y hole; radius = js_div (hole_diameter hole) (Num 2)
        in if \<not> js_isFinite cx \<or> \<not> js_isFinite cy \<or> js_le radius (Num 0) then st
           else
             let center = holeCenter hole
             in if \<not> pointInPolygon center (polygon panel) then st
                else
                  let circle = circlePath center radius 40
                  in if length circle \<ge> 3
                     then (polyHoles @ [circle], assigned @ [hole],
                           js_sub ar (js_abs (polygonArea circle)))
                     else st)"

definition attachToPanel :: "drillHole list \<Rightarrow> recoveredPanel \<Rightarrow> recoveredPanel" where
  "attachToPanel holes panel =
     (case foldl (attachStep panel)
             (case panel_holes panel of Some hs \<Rightarrow> hs | None \<Rightarrow> [], [], area panel) holes of
        (polyHoles, assigned, ar) \<Rightarrow>
          let panel = (if polyHoles \<noteq> [] then panel\<lparr>panel_holes := Some polyHoles\<rparr> else panel);
              panel = (if assigned \<noteq> [] then panel\<lparr>drillHoles := Some assigned\<rparr> else panel);
              panel = (if js_isFinite ar then panel\<lparr>area := js_max ar (Num 0)\<rparr> else panel)
          in panel)"

text \<open>
  \<^verbatim>\<open>attachDrillHolesToPanels\<close> updates the panels in place; the model returns them.
\<close>

definition attachDrillHolesToPanels ::
  "recoveredPanel list \<Rightarrow> drillHole list \<Rightarrow> recoveredPanel list" where
  "attachDrillHolesToPanels pnls holes =
     (if holes = [] then pnls else map (attachToPanel holes) pnls)"

subsection \<open>Kerfs\<close>

record recoverOptions =
  defaultBitDiameterMm :: "jsnum option"
  depthRatio :: "jsnum option"
  minPanelArea :: "jsnum option"
  kerfScale :: "jsnum option"

text \<open>The defaults of the destructured options: 6, 0.8, 1000 and 1.\<close>

definition optDefaultBit :: "recoverOptions \<Rightarrow> jsnum" where
  "optDefaultBit opts = (case defaultBitDiameterMm opts of Some v \<Rightarrow> v | None \<Rightarrow> Num 6)"

definition optDepthRatio :: "recoverOptions \<Rightarrow> jsnum" where
  "optDepthRatio opts = (case depthRatio opts of Some v \<Rightarrow> v | None \<Rightarrow> Num (8 / 10))"

definition optMinPanelArea :: "recoverOptions \<Rightarrow> jsnum" where
  "optMinPanelArea opts = (case minPanelArea opts of Some v \<Rightarrow> v | None \<Rightarrow> Num 1000)"

definition optKerfScale :: "recoverOptions \<Rightarrow> jsnum" where
  "optKerfScale opts = (case kerfScale opts of Some v \<Rightarrow> v | None \<Rightarrow> Num 1)"

text \<open>
  \<^verbatim>\<open>addKerfsForPaths(paths)\<close> appends to the array \<^verbatim>\<open>kerfs\<close>, which is the last argument
  and the result here.
\<close>

fun addKerfsForPaths ::
  "clipper \<Rightarrow> recoverOptions \<Rightarrow> routingPath list \<Rightarrow> paths \<Rightarrow> string + paths" where
  "addKerfsForPaths cl opts [] kerfs = Inr kerfs"
| "addKerfsForPaths cl opts (p # ps) kerfs =
     (let pts = map (\<lambda>q. \<lparr>vx = pt_x q, vy = pt_y q\<rparr>) (points p)
      in if length pts < 2 then addKerfsForPaths cl opts ps kerfs
         else
           let radius =
                 js_mul (js_div (case diameter p of Some d \<Rightarrow> d | None \<Rightarrow> optDefaultBit opts) (Num 2))
                   (optKerfScale opts)
           in if \<not> js_isFinite radius \<or> js_le radius (Num 0) then addKerfsForPaths cl opts ps kerfs
              else
                ebind (offsetOpenPath cl pts radius)
                  (\<lambda>buffered. addKerfsForPaths cl opts ps (kerfs @ buffered)))"

text \<open>The loop over the routing paths that keeps the through-cuts.\<close>

fun throughCutKerfs ::
  "clipper \<Rightarrow> (string \<Rightarrow> jsnum) \<Rightarrow> recoverOptions \<Rightarrow> jsnum \<Rightarrow> routingPath list \<Rightarrow> paths \<Rightarrow>
   string + paths" where
  "throughCutKerfs cl toNumber opts sheetT [] kerfs = Inr kerfs"
| "throughCutKerfs cl toNumber opts sheetT (p # ps) kerfs =
     (if \<not> isThroughCut toNumber p sheetT (optDepthRatio opts)
      then throughCutKerfs cl toNumber opts sheetT ps kerfs
      else ebind (addKerfsForPaths cl opts [p] kerfs)
             (\<lambda>kerfs. throughCutKerfs cl toNumber opts sheetT ps kerfs))"

text \<open>
  The kerfs of a document: the through-cut loop, then the fallback
  \<^verbatim>\<open>if (!kerfs.length && routing.length) addKerfsForPaths(routing)\<close>.
\<close>

definition collectKerfs ::
  "clipper \<Rightarrow> (string \<Rightarrow> jsnum) \<Rightarrow> recoverOptions \<Rightarrow> jsnum \<Rightarrow> routingPath list \<Rightarrow> string + paths" where
  "collectKerfs cl toNumber opts sheetT routing =
     ebind (throughCutKerfs cl toNumber opts sheetT routing [])
       (\<lambda>kerfs. if kerfs = [] \<and> routing \<noteq> [] then addKerfsForPaths cl opts routing kerfs
                else Inr kerfs)"

subsection \<open>Pieces and panels\<close>

definition sheetRing :: "jsnum \<Rightarrow> jsnum \<Rightarrow> path" where
  "sheetRing sheetW sheetH =
     toPath [\<lparr>vx = Num 0, vy = Num 0\<rparr>, \<lparr>vx = sheetW, vy = Num 0\<rparr>,
             \<lparr>vx = sheetW, vy = sheetH\<rparr>, \<lparr>vx = Num 0, vy = sheetH\<rparr>]"

definition sheetPanel :: "jsnum \<Rightarrow> jsnum \<Rightarrow> recoveredPanel" where
  "sheetPanel sheetW sheetH =
     (let sheetPoly = fromPath (sheetRing sheetW sheetH)
      in \<lparr>polygon = sheetPoly, coords = Some sheetPoly, panel_holes = Some [],
          drillHoles = None, area = js_mul sheetW sheetH, width = sheetW, height = sheetH,
          panel_bounds = (Num 0, Num 0, sheetW, sheetH)\<rparr>)"

definition flatPiece :: "path \<Rightarrow> piece" where
  "flatPiece p = \<lparr>piece_outer = p, piece_holes = []\<rparr>"

text \<open>
  The hole-aware difference of the sheet and the kerfs, in its \<^verbatim>\<open>try\<close>: an empty result
  is replaced by the flat difference; an error thrown in the \<^verbatim>\<open>try\<close> is caught, the flat
  difference is computed again outside any \<^verbatim>\<open>try\<close>, and the message is pushed to
  \<^verbatim>\<open>parse_errors\<close>.
\<close>

definition remainingPieces ::
  "clipper \<Rightarrow> paths \<Rightarrow> paths \<Rightarrow> cixData \<Rightarrow> string + (piece list \<times> cixData)" where
  "remainingPieces cl sheetPath kerfUnion cix =
     (let caught = (\<lambda>msg.
            ebind (difference cl sheetPath kerfUnion)
              (\<lambda>fallback. Inr (map flatPiece fallback,
                               cix\<lparr>parse_errors := parse_errors cix @ [msg]\<rparr>)))
      in case differenceWithHoles cl sheetPath kerfUnion of
           Inl msg \<Rightarrow> caught msg
         | Inr remaining \<Rightarrow>
             if remaining \<noteq> [] then Inr (remaining, cix)
             else (case difference cl sheetPath kerfUnion of
                     Inl msg \<Rightarrow> caught msg
                   | Inr fallback \<Rightarrow> Inr (map flatPiece fallback, cix)))"

text \<open>
  The body of the loop over the remaining pieces: \<open>None\<close> is \<^verbatim>\<open>continue\<close>. The area is the
  library's when it gives a number, the shoelace area otherwise, minus the areas of the
  holes.
\<close>

definition panelOfPiece :: "clipper \<Rightarrow> jsnum \<Rightarrow> piece \<Rightarrow> recoveredPanel option" where
  "panelOfPiece cl minArea pc =
     (let outer = fromPath (piece_outer pc);
          holes = map fromPath (piece_holes pc)
      in if length outer < 3 then None
         else
           let ar = (case cl_area cl (piece_outer pc) of
                       Some clipperArea \<Rightarrow> js_div (js_abs clipperArea) (js_mul SCALE SCALE)
                     | None \<Rightarrow> polygonArea outer);
               ar = foldl (\<lambda>ar h. js_sub ar (js_abs (polygonArea h))) ar holes
           in if js_lt ar minArea then None
              else
                let b = bounds outer
                in Some \<lparr>polygon = outer, coords = Some outer, panel_holes = Some holes,
                         drillHoles = None, area = ar,
                         width = js_sub (fst (snd (snd b))) (fst b),
                         height = js_sub (snd (snd (snd b))) (fst (snd b)),
                         panel_bounds = b\<rparr>)"

definition labelPoints :: "cixData \<Rightarrow> vec2 list" where
  "labelPoints cix =
     List.map_filter
       (\<lambda>panel. let x = x_position (spec_metadata panel); y = y_position (spec_metadata panel)
                in if js_isFinite x \<and> js_isFinite y then Some \<lparr>vx = x, vy = y\<rparr> else None)
       (panels cix)"

definition panelHoles :: "recoveredPanel \<Rightarrow> vec2 list list" where
  "panelHoles panel = (case panel_holes panel of Some hs \<Rightarrow> hs | None \<Rightarrow> [])"

text \<open>The label filter and its fallback: \<^verbatim>\<open>labeledPanels\<close> and \<^verbatim>\<open>finalPanels\<close>.\<close>

definition labeledPanels :: "vec2 list \<Rightarrow> recoveredPanel list \<Rightarrow> recoveredPanel list" where
  "labeledPanels lps pnls =
     (if lps \<noteq> []
      then filter (\<lambda>panel. list_ex (\<lambda>pt. pointInPolygonWithHoles pt (polygon panel) (panelHoles panel)) lps)
             pnls
      else [])"

definition finalPanels :: "vec2 list \<Rightarrow> recoveredPanel list \<Rightarrow> recoveredPanel list" where
  "finalPanels lps pnls = (if labeledPanels lps pnls \<noteq> [] then labeledPanels lps pnls else pnls)"

text \<open>
  The removed material: the sheet minus the final panels, in a \<^verbatim>\<open>try\<close> whose handler
  falls back to the kerf polygons.
\<close>

definition removedShapes ::
  "clipper \<Rightarrow> jsnum \<Rightarrow> jsnum \<Rightarrow> vec2 list list \<Rightarrow> recoveredPanel list \<Rightarrow> removedPolygon list" where
  "removedShapes cl sheetW sheetH kerfPolygons final =
     (let panelPaths = map (\<lambda>panel. toPath (polygon panel))
                         (filter (\<lambda>panel. length (polygon panel) \<ge> 3) final)
      in if panelPaths \<noteq> []
         then (case differenceWithHoles cl [sheetRing sheetW sheetH] panelPaths of
                 Inr removedPieces \<Rightarrow>
                   List.map_filter
                     (\<lambda>pc. let outer = fromPath (piece_outer pc)
                           in if length outer < 3 then None
                              else Some \<lparr>removed_outer = outer,
                                        removed_holes =
                                          Some (filter (\<lambda>hole. length hole \<ge> 3)
                                                  (map fromPath (piece_holes pc)))\<rparr>)
                     removedPieces
               | Inl msg \<Rightarrow>
                   map (\<lambda>poly. \<lparr>removed_outer = poly, removed_holes = Some []\<rparr>)
                     (filter (\<lambda>poly. length poly \<ge> 3) kerfPolygons))
         else [\<lparr>removed_outer = fromPath (sheetRing sheetW sheetH), removed_holes = Some []\<rparr>])"

subsection \<open>\<^verbatim>\<open>recoverPanelsFromRouting\<close>\<close>

text \<open>
  The function returns the panels and writes \<^verbatim>\<open>kerf_polygons\<close>, \<^verbatim>\<open>removed_polygons\<close> and
  \<^verbatim>\<open>parse_errors\<close> of the document: the model returns the panels with the updated
  document, or \<open>Inl msg\<close> when an error of the library leaves the function.
\<close>

definition setKerfPolygons :: "vec2 list list \<Rightarrow> cixData \<Rightarrow> cixData" where
  "setKerfPolygons ks cix = cix\<lparr>metadata := (metadata cix)\<lparr>kerf_polygons := Some ks\<rparr>\<rparr>"

definition setRemovedPolygons :: "removedPolygon list \<Rightarrow> cixData \<Rightarrow> cixData" where
  "setRemovedPolygons rs cix = cix\<lparr>metadata := (metadata cix)\<lparr>removed_polygons := Some rs\<rparr>\<rparr>"

definition docDrilling :: "cixData \<Rightarrow> drillHole list" where
  "docDrilling cix = (case drilling (metadata cix) of Some hs \<Rightarrow> hs | None \<Rightarrow> [])"

definition docRouting :: "cixData \<Rightarrow> routingPath list" where
  "docRouting cix = (case routing_paths (metadata cix) of Some r \<Rightarrow> r | None \<Rightarrow> [])"

definition docSheetW :: "cixData \<Rightarrow> jsnum" where
  "docSheetW cix = (case sheet_width (metadata cix) of Some w \<Rightarrow> w | None \<Rightarrow> Num 0)"

definition docSheetH :: "cixData \<Rightarrow> jsnum" where
  "docSheetH cix = (case sheet_height (metadata cix) of Some h \<Rightarrow> h | None \<Rightarrow> Num 0)"

definition docSheetT :: "cixData \<Rightarrow> jsnum" where
  "docSheetT cix = (case sheet_thickness (metadata cix) of Some t \<Rightarrow> t | None \<Rightarrow> Num 0)"

text \<open>The panels of the remaining pieces, with the drill holes attached.\<close>

definition survivingPanels :: "clipper \<Rightarrow> recoverOptions \<Rightarrow> cixData \<Rightarrow> piece list \<Rightarrow> recoveredPanel list" where
  "survivingPanels cl opts cix remaining =
     attachDrillHolesToPanels (List.map_filter (panelOfPiece cl (optMinPanelArea opts)) remaining)
       (docDrilling cix)"

definition recoverPanelsFromRouting ::
  "clipper \<Rightarrow> (string \<Rightarrow> jsnum) \<Rightarrow> cixData \<Rightarrow> recoverOptions \<Rightarrow>
   string + (recoveredPanel list \<times> cixData)" where
  "recoverPanelsFromRouting cl toNumber cix opts =
     (let sheetW = docSheetW cix; sheetH = docSheetH cix; sheetT = docSheetT cix
      in if js_le sheetW (Num 0) \<or> js_le sheetH (Num 0) then Inr ([], cix)
         else
           ebind (collectKerfs cl toNumber opts sheetT (docRouting cix))
             (\<lambda>kerfs.
                if kerfs = []
                then Inr (attachDrillHolesToPanels [sheetPanel sheetW sheetH] (docDrilling cix),
                          setRemovedPolygons [] (setKerfPolygons [] cix))
                else
                  ebind (unionPaths cl kerfs)
                    (\<lambda>kerfUnion.
                       let kerfPolygons =
                             (if kerfUnion = [] then []
                              else filter (\<lambda>poly. length poly \<ge> 3) (map fromPath kerfUnion))
                       in ebind (remainingPieces cl [sheetRing sheetW sheetH] kerfUnion
                                   (setKerfPolygons kerfPolygons cix))
                            (\<lambda>(remaining, cix).
                               let pnls = survivingPanels cl opts cix remaining
                               in if pnls = []
                                  then Inr (attachDrillHolesToPanels [sheetPanel sheetW sheetH]
                                              (docDrilling cix),
                                            setRemovedPolygons
                                              (map (\<lambda>poly. \<lparr>removed_outer = poly, removed_holes = Some []\<rparr>)
                                                 (filter (\<lambda>poly. length poly \<ge> 3) kerfPolygons))
                                              cix)
                                  else
                                    let final = finalPanels (labelPoints cix) pnls
                                    in Inr (final,
                                            setRemovedPolygons
                                              (removedShapes cl sheetW sheetH kerfPolygons final) cix)))))"

section \<open>Strings\<close>

text \<open>
  A JavaScript string is modelled as a list of 8-bit characters. The methods of
  \<^verbatim>\<open>String\<close> that the parser uses are defined here as JavaScript defines them, for the
  arguments that the parser gives them.
\<close>

text \<open>The white space that \<^verbatim>\<open>trim\<close> removes, among the characters below 256.\<close>

definition isSpace :: "char \<Rightarrow> bool" where
  "isSpace c = (c \<in> set [CHR 0x09, CHR 0x0A, CHR 0x0B, CHR 0x0C, CHR 0x0D, CHR '' '', CHR 0xA0])"

definition trim :: "string \<Rightarrow> string" where
  "trim s = rev (dropWhile isSpace (rev (dropWhile isSpace s)))"

definition startsWith :: "string \<Rightarrow> string \<Rightarrow> bool" where
  "startsWith p s = (take (length p) s = p)"

text \<open>\<^verbatim>\<open>s.includes(p)\<close>.\<close>

fun str_includes :: "string \<Rightarrow> string \<Rightarrow> bool" where
  "str_includes p [] = (p = [])"
| "str_includes p (c # cs) = (startsWith p (c # cs) \<or> str_includes p cs)"

text \<open>
  \<^verbatim>\<open>s.split(sep)\<close> for a separator that is not empty: the pieces between the occurrences
  of the separator, found from the left. \<^verbatim>\<open>s.split(sep, n)\<close> keeps the first \<open>n\<close> pieces.
\<close>

fun splitAcc :: "string \<Rightarrow> string \<Rightarrow> string \<Rightarrow> string list" where
  "splitAcc sep cur [] = [cur]"
| "splitAcc sep cur (c # cs) =
     (if sep \<noteq> [] \<and> startsWith sep (c # cs)
      then cur # splitAcc sep [] (drop (length sep) (c # cs))
      else splitAcc sep (cur @ [c]) cs)"

definition split :: "string \<Rightarrow> string \<Rightarrow> string list" where
  "split sep s = splitAcc sep [] s"

definition splitLimit :: "string \<Rightarrow> nat \<Rightarrow> string \<Rightarrow> string list" where
  "splitLimit sep n s = take n (split sep s)"

text \<open>\<open>xs[i]\<close>, which is \<^verbatim>\<open>undefined\<close> out of range.\<close>

definition nth_opt :: "'a list \<Rightarrow> nat \<Rightarrow> 'a option" where
  "nth_opt xs i = (if i < length xs then Some (xs ! i) else None)"

text \<open>The four regular-expression replacements of the parser.\<close>

definition stripTrailingDots :: "string \<Rightarrow> string" where
  \<comment> \<open>\<^verbatim>\<open>replace(/\.+$/, "")\<close>\<close>
  "stripTrailingDots s = rev (dropWhile (\<lambda>c. c = CHR ''.'') (rev s))"

definition removeQuotes :: "string \<Rightarrow> string" where
  \<comment> \<open>\<^verbatim>\<open>replace(/"/g, "")\<close>\<close>
  "removeQuotes s = filter (\<lambda>c. c \<noteq> CHR 0x22) s"

definition stripQuotes :: "string \<Rightarrow> string" where
  \<comment> \<open>\<^verbatim>\<open>replace(/^"+|"+$/g, "")\<close>\<close>
  "stripQuotes s = rev (dropWhile (\<lambda>c. c = CHR 0x22) (rev (dropWhile (\<lambda>c. c = CHR 0x22) s)))"

definition stripExtension :: "string \<Rightarrow> string" where
  \<comment> \<open>\<^verbatim>\<open>replace(/\.[^.]+$/, "")\<close>: the last dot and what follows it, when something follows\<close>
  "stripExtension s =
     (let ext = takeWhile (\<lambda>c. c \<noteq> CHR ''.'') (rev s)
      in if ext \<noteq> [] \<and> length ext < length s then rev (drop (length ext + 1) (rev s)) else s)"

section \<open>Parser (\<^verbatim>\<open>CixParser\<close>)\<close>

subsection \<open>Built-in functions\<close>

text \<open>
  The conversions of strings to numbers and \<^verbatim>\<open>eval\<close> are JavaScript's own; they are
  parameters of the model.
  \<^item> \<open>js_parseFloat s\<close> is \<^verbatim>\<open>Number.parseFloat(s)\<close>;
  \<^item> \<open>js_parseInt s\<close> is \<^verbatim>\<open>Number.parseInt(s, 10)\<close>;
  \<^item> \<open>js_eval s\<close> is the outcome of \<^verbatim>\<open>Number(eval(s))\<close>, where \<^verbatim>\<open>eval\<close> is a direct call in the
    scope of the method \<^verbatim>\<open>parseFloat\<close> of the parser: the evaluated text has the parser
    (\<^verbatim>\<open>this\<close>), the local variables and every global object in its reach.
  The outcomes \<open>Returns n\<close> (a number), \<open>Throws\<close> (an error thrown) and \<open>Diverges\<close> (no
  return at all) are those of a text that reads and changes nothing but its own value. The
  outcome \<open>Interferes\<close> is every other one: the text assigns to a method or a field of the
  parser (\<^verbatim>\<open>this.flipY = ...\<close>), to a property of a built-in object or to a global, or
  its value depends on anything but the text, whatever it then returns or throws.

  The three functions are those of one run of the parser: the value of \<open>js_eval\<close> on a text
  that the run does not evaluate has no part in the result.
\<close>

datatype evalOutcome = Returns jsnum | Throws | Diverges | Interferes

text \<open>
  A run of a method of the parser. \<open>None\<close> is a call that does not return and
  \<open>Some (Known v)\<close> a call that returns \<open>v\<close>, both on a parser and on built-in objects that
  are those of the source. After an evaluation that interferes they may be any others: the
  methods that the code calls next (\<^verbatim>\<open>this.flipY\<close>, \<^verbatim>\<open>this.parseFloat\<close>, \<^verbatim>\<open>Math.max\<close>,
  \<^verbatim>\<open>push\<close>, ...) may then return other values, throw, or not return. Such a run is
  \<open>Some Unknown\<close>: the model says nothing of what the code does in it, and \<open>Unknown\<close> stays
  to the end of the run.

  The handlers of the three \<^verbatim>\<open>try\<close> statements around calls of the parser's methods (in
  \<^verbatim>\<open>createPanelFromLabel\<close>, which returns \<^verbatim>\<open>null\<close>, in \<^verbatim>\<open>parseDrillingFromMacros\<close>,
  which drops the macro, and in \<^verbatim>\<open>parse\<close>, which pushes the message to \<^verbatim>\<open>parse_errors\<close>)
  belong to the runs that are \<open>Unknown\<close>: the statements that they guard call
  \<^verbatim>\<open>this.parseFloat\<close>, which catches what \<^verbatim>\<open>eval\<close> throws, \<^verbatim>\<open>this.flipY\<close>, \<^verbatim>\<open>String\<close>,
  \<^verbatim>\<open>Math.max\<close>, \<^verbatim>\<open>Number.parseInt\<close> and \<^verbatim>\<open>push\<close> and read properties of objects that are
  defined, and none of these throws unless an evaluated text has replaced it.
\<close>

datatype 'a run = Known 'a | Unknown

definition rbind :: "'a run option \<Rightarrow> ('a \<Rightarrow> 'b run option) \<Rightarrow> 'b run option" where
  "rbind m f = (case m of None \<Rightarrow> None | Some Unknown \<Rightarrow> Some Unknown | Some (Known v) \<Rightarrow> f v)"

record builtins =
  js_parseFloat :: "string \<Rightarrow> jsnum"
  js_parseInt :: "string \<Rightarrow> jsnum"
  js_eval :: "string \<Rightarrow> evalOutcome"

text \<open>
  \<^verbatim>\<open>obj[key] = value\<close> on a plain object whose values are strings: the key
  \<^verbatim>\<open>__proto__\<close> is the accessor of the prototype, which ignores a string.
\<close>

definition setProp :: "(string \<rightharpoonup> 'a) \<Rightarrow> string \<Rightarrow> 'a \<Rightarrow> (string \<rightharpoonup> 'a)" where
  "setProp obj key v = (if key = ''__proto__'' then obj else obj(key \<mapsto> v))"

subsection \<open>\<^verbatim>\<open>parseFloat\<close> of the parser\<close>

text \<open>
  The test for an expression such as \<^verbatim>\<open>1550.-305.96\<close>: a dot, a minus sign, and more than
  two pieces between dots.
\<close>

definition hasExpression :: "string \<Rightarrow> bool" where
  "hasExpression s =
     (str_includes ''.'' s \<and> str_includes ''-'' s \<and> length (split ''.'' s) > 2)"

text \<open>
  \<^verbatim>\<open>this.parseFloat(value)\<close> for a value that is a string or \<^verbatim>\<open>undefined\<close>. The result
  \<open>None\<close> is a call that does not return: the evaluated text runs forever. An error
  thrown in the \<^verbatim>\<open>try\<close> gives 0. A text that interferes leaves the run \<open>Unknown\<close>.
\<close>

definition parseFloatM :: "builtins \<Rightarrow> string option \<Rightarrow> jsnum run option" where
  "parseFloatM bi v =
     (case v of
        None \<Rightarrow> Some (Known (Num 0))
      | Some asStr \<Rightarrow>
          if hasExpression asStr
          then (case js_eval bi asStr of
                  Returns n \<Rightarrow> Some (Known n)
                | Throws \<Rightarrow> Some (Known (Num 0))
                | Diverges \<Rightarrow> None
                | Interferes \<Rightarrow> Some Unknown)
          else
            let parsed = js_parseFloat bi asStr
            in Some (Known (if js_isNaN parsed then Num 0 else parsed)))"

subsection \<open>\<^verbatim>\<open>parseMaindata\<close>\<close>

fun parseMaindataLoop ::
  "builtins \<Rightarrow> string list \<Rightarrow> bool \<Rightarrow> (string \<rightharpoonup> jsnum) \<Rightarrow> (string \<rightharpoonup> jsnum)" where
  "parseMaindataLoop bi [] inMain maindata = maindata"
| "parseMaindataLoop bi (raw # rest) inMain maindata =
     (let line = trim raw
      in if startsWith ''BEGIN MAINDATA'' line then parseMaindataLoop bi rest True maindata
         else if startsWith ''END MAINDATA'' line then maindata
         else if \<not> inMain then parseMaindataLoop bi rest inMain maindata
         else if str_includes ''='' line
         then
           let parts = splitLimit ''='' 2 line;
               key = trim (parts ! 0);
               val = stripTrailingDots (trim (parts ! 1))
           in if key \<in> set [''LPX'', ''LPY'', ''LPZ'']
              then
                let parsed = js_parseFloat bi val
                in if \<not> js_isNaN parsed
                   then parseMaindataLoop bi rest inMain (maindata(key \<mapsto> parsed))
                   else parseMaindataLoop bi rest inMain maindata
              else parseMaindataLoop bi rest inMain maindata
         else parseMaindataLoop bi rest inMain maindata)"

definition parseMaindata :: "builtins \<Rightarrow> string list \<Rightarrow> (string \<rightharpoonup> jsnum)" where
  "parseMaindata bi lines = parseMaindataLoop bi lines False Map.empty"

subsection \<open>\<^verbatim>\<open>parseParamLine\<close> and \<^verbatim>\<open>parseMacros\<close>\<close>

definition parseParamLine :: "string \<Rightarrow> (string \<rightharpoonup> string)" where
  "parseParamLine line =
     foldl (\<lambda>prms part.
              if \<not> str_includes ''='' part then prms
              else
                let kv = splitLimit ''='' 2 part
                in setProp prms (trim (kv ! 0)) (stripQuotes (trim (kv ! 1))))
       Map.empty (tl (split '','' line))"

text \<open>\<^verbatim>\<open>params.NAME && params.VALUE !== undefined\<close>: the name and the value of a parameter.\<close>

definition nameAndValue :: "(string \<rightharpoonup> string) \<Rightarrow> (string \<times> string) option" where
  "nameAndValue prms =
     (case (prms ''NAME'', prms ''VALUE'') of
        (Some n, Some v) \<Rightarrow> if n \<noteq> [] then Some (n, v) else None
      | _ \<Rightarrow> None)"

text \<open>
  A macro is an object from parameter names to strings; its type is the property
  \<^verbatim>\<open>_MACRO_TYPE\<close> of the same object.
\<close>

fun parseMacrosLoop ::
  "string list \<Rightarrow> (string \<rightharpoonup> string) list \<Rightarrow> bool \<Rightarrow> (string \<rightharpoonup> string) option \<Rightarrow>
   (string \<rightharpoonup> string) list" where
  "parseMacrosLoop [] macros inMacro current = macros"
| "parseMacrosLoop (raw # rest) macros inMacro current =
     (let line = trim raw
      in if startsWith ''BEGIN MACRO'' line then parseMacrosLoop rest macros True (Some Map.empty)
         else if startsWith ''END MACRO'' line
         then parseMacrosLoop rest
                (case current of Some cur \<Rightarrow> macros @ [cur] | None \<Rightarrow> macros) False None
         else
           (case current of
              None \<Rightarrow> parseMacrosLoop rest macros inMacro current
            | Some cur \<Rightarrow>
                if \<not> inMacro then parseMacrosLoop rest macros inMacro current
                else if startsWith ''NAME='' line
                then
                  (case nth_opt (splitLimit ''='' 2 line) 1 of
                     Some v \<Rightarrow>
                       parseMacrosLoop rest macros inMacro
                         (Some (setProp cur ''_MACRO_TYPE'' (trim (removeQuotes v))))
                   | None \<Rightarrow>
                       parseMacrosLoop rest macros inMacro (Some (cur(''_MACRO_TYPE'' := None))))
                else if startsWith ''PARAM'' line
                then
                  (case nameAndValue (parseParamLine line) of
                     Some (n, v) \<Rightarrow> parseMacrosLoop rest macros inMacro (Some (setProp cur n v))
                   | None \<Rightarrow> parseMacrosLoop rest macros inMacro current)
                else parseMacrosLoop rest macros inMacro current))"

definition parseMacros :: "string list \<Rightarrow> (string \<rightharpoonup> string) list" where
  "parseMacros lines = parseMacrosLoop lines [] False None"


subsection \<open>\<^verbatim>\<open>createPanelFromLabel\<close>\<close>

text \<open>
  The three calls of \<^verbatim>\<open>this.parseFloat\<close> are in the order of the source. In a run that is
  not \<open>Unknown\<close> nothing in the \<^verbatim>\<open>try\<close> throws, so that the function returns a panel and
  not \<^verbatim>\<open>null\<close>.
\<close>

definition createPanelFromLabel ::
  "builtins \<Rightarrow> jsnum \<Rightarrow> (string \<rightharpoonup> string) \<Rightarrow> (string \<rightharpoonup> jsnum) \<Rightarrow>
   panelSpecification run option" where
  "createPanelFromLabel bi currentSheetHeight labelMacro sheetDims =
     rbind (parseFloatM bi (labelMacro ''X'')) (\<lambda>x.
       let yValue = (case labelMacro ''Y'' of Some v \<Rightarrow> v | None \<Rightarrow> ''0'')
       in rbind (parseFloatM bi (Some yValue)) (\<lambda>yRaw.
            let y = (if hasExpression yValue then yRaw else flipY yRaw currentSheetHeight)
            in rbind (parseFloatM bi (labelMacro ''ROT'')) (\<lambda>rotRaw.
                 Some (Known
                   \<lparr>spec_id = (case labelMacro ''ID'' of Some v \<Rightarrow> v | None \<Rightarrow> ''Unknown''),
                    spec_width = Num 0, spec_height = Num 0,
                    spec_thickness = (case sheetDims ''LPZ'' of Some t \<Rightarrow> t | None \<Rightarrow> Num 18),
                    spec_geometry = [], spec_holes = [], spec_edges = [],
                    spec_metadata =
                      \<lparr>x_position = x, y_position = y, y_position_raw = yRaw,
                       rotation = rotRaw, rotation_raw = rotRaw,
                       label_data = (case labelMacro ''DATA'' of Some v \<Rightarrow> v | None \<Rightarrow> []),
                       label_name = (case labelMacro ''NAME'' of Some v \<Rightarrow> v | None \<Rightarrow> [])\<rparr>\<rparr>))))"

text \<open>
  The loop of \<^verbatim>\<open>parseContent\<close> over the macros that pushes the panels of the labels; the
  last argument holds the panels pushed so far.
\<close>

fun labelPanels ::
  "builtins \<Rightarrow> jsnum \<Rightarrow> (string \<rightharpoonup> jsnum) \<Rightarrow> (string \<rightharpoonup> string) list \<Rightarrow>
   panelSpecification list \<Rightarrow> panelSpecification list run option" where
  "labelPanels bi h sheetDims [] acc = Some (Known acc)"
| "labelPanels bi h sheetDims (macro # rest) acc =
     (if macro ''_MACRO_TYPE'' = Some ''LABEL''
      then (case createPanelFromLabel bi h macro sheetDims of
              None \<Rightarrow> None
            | Some Unknown \<Rightarrow> Some Unknown
            | Some (Known panel) \<Rightarrow> labelPanels bi h sheetDims rest (acc @ [panel]))
      else labelPanels bi h sheetDims rest acc)"

subsection \<open>\<^verbatim>\<open>parseRoutingPaths\<close>\<close>

text \<open>
  The cursor \<open>i\<close> of the source is the list of the lines from \<open>i\<close> on: \<open>lines[i]\<close> is its
  head and \<open>i += 1\<close> its tail.

  The loop over the parameter lines of a \<^verbatim>\<open>ROUT\<close> macro, which starts at the name line and
  stops before the line \<^verbatim>\<open>END MACRO\<close>.
\<close>

fun routHeader :: "builtins \<Rightarrow> string list \<Rightarrow> routingPath \<Rightarrow> routingPath \<times> string list" where
  "routHeader bi [] current = (current, [])"
| "routHeader bi (raw # rest) current =
     (let paramLine = trim raw
      in if startsWith ''END MACRO'' paramLine then (current, raw # rest)
         else if startsWith ''PARAM'' paramLine
         then
           (case nameAndValue (parseParamLine paramLine) of
              Some (n, v) \<Rightarrow>
                let current = current\<lparr>params := setProp (params current) n v\<rparr>;
                    dia = js_parseFloat bi v
                in routHeader bi rest
                     (if n = ''DIA'' \<and> \<not> js_isNaN dia then current\<lparr>diameter := Some dia\<rparr>
                      else current)
            | None \<Rightarrow> routHeader bi rest current)
         else routHeader bi rest current)"

text \<open>
  The loops over the parameter lines of the sub-blocks have one shape: up to the line
  \<^verbatim>\<open>END MACRO\<close>, the first name \<open>k\<close> of the list with \<^verbatim>\<open>PARAM,NAME=k\<close> in the line takes
  \<^verbatim>\<open>this.parseFloat(paramLine.split("VALUE=")[1])\<close>. The names of the source are
  \<^verbatim>\<open>X, Y\<close>, then \<^verbatim>\<open>XE, YE, ZE\<close>, then \<^verbatim>\<open>XE, YE, XC, YC, ZE\<close>, then \<^verbatim>\<open>ID\<close>. The result has
  the values assigned and the lines that are left; a name without a value keeps the
  initial value of its variable.
\<close>

fun scanParams ::
  "builtins \<Rightarrow> string list \<Rightarrow> string list \<Rightarrow> (string \<rightharpoonup> jsnum) \<Rightarrow>
   ((string \<rightharpoonup> jsnum) \<times> string list) run option" where
  "scanParams bi keys [] vals = Some (Known (vals, []))"
| "scanParams bi keys (raw # rest) vals =
     (let paramLine = trim raw
      in if startsWith ''END MACRO'' paramLine then Some (Known (vals, raw # rest))
         else
           (case find (\<lambda>k. str_includes (''PARAM,NAME='' @ k) paramLine) keys of
              None \<Rightarrow> scanParams bi keys rest vals
            | Some k \<Rightarrow>
                (case parseFloatM bi (nth_opt (split ''VALUE='' paramLine) 1) of
                   None \<Rightarrow> None
                 | Some Unknown \<Rightarrow> Some Unknown
                 | Some (Known v) \<Rightarrow> scanParams bi keys rest (vals(k \<mapsto> v)))))"

definition numOr0 :: "(string \<rightharpoonup> jsnum) \<Rightarrow> string \<Rightarrow> jsnum" where
  "numOr0 vals k = (case vals k of Some v \<Rightarrow> v | None \<Rightarrow> Num 0)"

text \<open>
  A line or arc point is pushed and the depth of the path is raised:
  \<^verbatim>\<open>if (ze < 0) current.max_depth = Math.max(current.max_depth, Math.abs(ze))\<close>.
\<close>

definition pushCut :: "routingPoint \<Rightarrow> jsnum \<Rightarrow> routingPath \<Rightarrow> routingPath" where
  "pushCut pt ze current =
     (let current = current\<lparr>points := points current @ [pt]\<rparr>
      in if js_lt ze (Num 0)
         then current\<lparr>max_depth := js_max (max_depth current) (js_abs ze)\<rparr>
         else current)"

definition freshPath :: routingPath where
  "freshPath = \<lparr>path_id = None, points = [], params = Map.empty, max_depth = Num 0, diameter = None\<rparr>"

lemma routHeader_length: "length (snd (routHeader bi ls cur)) \<le> length ls"
proof (induction ls arbitrary: cur)
  case Nil
  show ?case by simp
next
  case (Cons raw rest)
  have "length (snd (routHeader bi rest c)) \<le> Suc (length rest)" for c
    using Cons.IH[of c] by simp
  then show ?case by (simp add: Let_def split: option.splits)
qed

lemma scanParams_length:
  "scanParams bi keys ls vals = Some (Known (vals', rest)) \<Longrightarrow> length rest \<le> length ls"
  by (induction bi keys ls vals rule: scanParams.induct)
    (auto simp: Let_def split: option.splits run.splits if_splits intro: le_SucI)

function routingLoop ::
  "builtins \<Rightarrow> jsnum \<Rightarrow> string list \<Rightarrow> routingPath list \<Rightarrow> bool \<Rightarrow> routingPath option \<Rightarrow>
   routingPath list run option" where
  "routingLoop bi sheetHeight [] routing inRout current = Some (Known routing)"
| "routingLoop bi sheetHeight (raw # rest) routing inRout current =
     (let line = trim raw
      in if startsWith ''BEGIN MACRO'' line
         then
           (let nameLine = (case rest of [] \<Rightarrow> [] | n # _ \<Rightarrow> trim n)
            in if str_includes ''NAME=ROUT'' nameLine \<and> \<not> str_includes ''NAME=ROUTG'' nameLine
               then (case routHeader bi rest freshPath of
                       (cur, rest') \<Rightarrow> routingLoop bi sheetHeight rest' routing True (Some cur))
               else routingLoop bi sheetHeight rest routing inRout current)
         else if inRout \<and> str_includes ''NAME=START_POINT'' line
         then
           (case scanParams bi [''X'', ''Y''] rest Map.empty of
              None \<Rightarrow> None
            | Some Unknown \<Rightarrow> Some Unknown
            | Some (Known (vals, rest')) \<Rightarrow>
                routingLoop bi sheetHeight rest' routing inRout
                  (map_option
                     (\<lambda>cur. cur\<lparr>points := points cur @
                             [\<lparr>pt_x = numOr0 vals ''X'', pt_y = flipY (numOr0 vals ''Y'') sheetHeight,
                               pt_z = None, pt_type = Start, pt_center = None\<rparr>]\<rparr>)
                     current))
         else if inRout \<and> str_includes ''NAME=LINE_EP'' line
         then
           (case scanParams bi [''XE'', ''YE'', ''ZE''] rest Map.empty of
              None \<Rightarrow> None
            | Some Unknown \<Rightarrow> Some Unknown
            | Some (Known (vals, rest')) \<Rightarrow>
                routingLoop bi sheetHeight rest' routing inRout
                  (map_option
                     (pushCut
                        \<lparr>pt_x = numOr0 vals ''XE'', pt_y = flipY (numOr0 vals ''YE'') sheetHeight,
                         pt_z = Some (numOr0 vals ''ZE''), pt_type = Line, pt_center = None\<rparr>
                        (numOr0 vals ''ZE''))
                     current))
         else if inRout \<and> (str_includes ''NAME=ARC_EPTP'' line \<or> str_includes ''NAME=ARC_EPRA'' line)
         then
           (case scanParams bi [''XE'', ''YE'', ''ZE''] rest Map.empty of
              None \<Rightarrow> None
            | Some Unknown \<Rightarrow> Some Unknown
            | Some (Known (vals, rest')) \<Rightarrow>
                routingLoop bi sheetHeight rest' routing inRout
                  (map_option
                     (pushCut
                        \<lparr>pt_x = numOr0 vals ''XE'', pt_y = flipY (numOr0 vals ''YE'') sheetHeight,
                         pt_z = Some (numOr0 vals ''ZE''), pt_type = Arc, pt_center = None\<rparr>
                        (numOr0 vals ''ZE''))
                     current))
         else if inRout \<and> str_includes ''NAME=ARC_EPCE'' line
         then
           (case scanParams bi [''XE'', ''YE'', ''XC'', ''YC'', ''ZE''] rest Map.empty of
              None \<Rightarrow> None
            | Some Unknown \<Rightarrow> Some Unknown
            | Some (Known (vals, rest')) \<Rightarrow>
                routingLoop bi sheetHeight rest' routing inRout
                  (map_option
                     (pushCut
                        \<lparr>pt_x = numOr0 vals ''XE'', pt_y = flipY (numOr0 vals ''YE'') sheetHeight,
                         pt_z = Some (numOr0 vals ''ZE''), pt_type = Arc,
                         pt_center = Some \<lparr>vx = numOr0 vals ''XC'',
                                           vy = flipY (numOr0 vals ''YC'') sheetHeight\<rparr>\<rparr>
                        (numOr0 vals ''ZE''))
                     current))
         else if inRout \<and> str_includes ''NAME=ENDPATH'' line
         then
           (case scanParams bi [''ID''] rest Map.empty of
              None \<Rightarrow> None
            | Some Unknown \<Rightarrow> Some Unknown
            | Some (Known (vals, rest')) \<Rightarrow>
                routingLoop bi sheetHeight rest'
                  (case current of
                     Some cur \<Rightarrow>
                       if points cur \<noteq> []
                       then routing @
                            [cur\<lparr>path_id := (case path_id cur of Some i \<Rightarrow> Some i | None \<Rightarrow> vals ''ID'')\<rparr>]
                       else routing
                   | None \<Rightarrow> routing)
                  False None)
         else routingLoop bi sheetHeight rest routing inRout current)"
  by pat_completeness auto
termination
proof (relation "measure (\<lambda>(bi, h, ls, routing, inRout, current). length ls)")
  show "wf (measure (\<lambda>(bi, h, ls, routing, inRout, current). length ls))" by simp
qed (auto dest: scanParams_length simp: le_imp_less_Suc
       dest!: arg_cong[where f = snd] intro: le_imp_less_Suc[OF routHeader_length])

definition parseRoutingPaths ::
  "builtins \<Rightarrow> string list \<Rightarrow> jsnum \<Rightarrow> routingPath list run option" where
  "parseRoutingPaths bi lines sheetHeight = routingLoop bi sheetHeight lines [] False None"


subsection \<open>\<^verbatim>\<open>parseDrillingFromMacros\<close>\<close>

text \<open>
  The number of rounds of \<^verbatim>\<open>for (let i = 0; i < repeat; i += 1)\<close>: the naturals below
  \<open>repeat\<close>. None below NaN; with \<open>repeat\<close> infinite the loop does not end.
\<close>

fun repeatCount :: "jsnum \<Rightarrow> nat option" where
  "repeatCount (Num r) = Some (nat \<lceil>r\<rceil>)"
| "repeatCount PInf = None"
| "repeatCount NInf = Some 0"
| "repeatCount NaN = Some 0"

text \<open>
  The holes of one \<^verbatim>\<open>BV\<close> macro. The calls of \<^verbatim>\<open>this.parseFloat\<close> are in the order of
  the source; in a run that is not \<open>Unknown\<close> nothing in the \<^verbatim>\<open>try\<close> throws.
\<close>

definition orDefault :: "string option \<Rightarrow> string \<Rightarrow> string option" where
  "orDefault v d = (case v of Some s \<Rightarrow> Some s | None \<Rightarrow> Some d)"

definition bvHoles :: "builtins \<Rightarrow> jsnum \<Rightarrow> (string \<rightharpoonup> string) \<Rightarrow> drillHole list run option" where
  "bvHoles bi currentSheetHeight macro =
     rbind (parseFloatM bi (macro ''X'')) (\<lambda>x.
     rbind (parseFloatM bi (macro ''Y'')) (\<lambda>y.
     rbind (parseFloatM bi (orDefault (macro ''DIA'') ''5'')) (\<lambda>dia.
     rbind (parseFloatM bi (orDefault (macro ''DP'') ''0'')) (\<lambda>dep.
     let repeat = js_max (Num 1)
                    (js_parseInt bi (case macro ''NRP'' of Some s \<Rightarrow> s | None \<Rightarrow> ''1''))
     in
     rbind (parseFloatM bi (orDefault (macro ''DX'') ''0'')) (\<lambda>dx.
     rbind (parseFloatM bi (orDefault (macro ''DY'') ''0'')) (\<lambda>dy.
     case repeatCount repeat of
       None \<Rightarrow> None
     | Some n \<Rightarrow>
         Some (Known
           (map (\<lambda>i. \<lparr>hole_x = js_add x (js_mul dx (Num (real i))),
                       hole_y = flipY (js_add y (js_mul dy (Num (real i)))) currentSheetHeight,
                       hole_diameter = dia, hole_depth = dep, hole_id = macro ''ID''\<rparr>)
              [0..<n]))))))))"

fun drillingLoop ::
  "builtins \<Rightarrow> jsnum \<Rightarrow> (string \<rightharpoonup> string) list \<Rightarrow> drillHole list \<Rightarrow>
   drillHole list run option" where
  "drillingLoop bi h [] holes = Some (Known holes)"
| "drillingLoop bi h (macro # rest) holes =
     (if macro ''_MACRO_TYPE'' \<noteq> Some ''BV'' then drillingLoop bi h rest holes
      else (case bvHoles bi h macro of
              None \<Rightarrow> None
            | Some Unknown \<Rightarrow> Some Unknown
            | Some (Known new) \<Rightarrow> drillingLoop bi h rest (holes @ new)))"

definition parseDrillingFromMacros ::
  "builtins \<Rightarrow> jsnum \<Rightarrow> (string \<rightharpoonup> string) list \<Rightarrow> drillHole list run option" where
  "parseDrillingFromMacros bi currentSheetHeight macros = drillingLoop bi currentSheetHeight macros []"

subsection \<open>\<^verbatim>\<open>parseContent\<close> and \<^verbatim>\<open>parse\<close>\<close>

text \<open>
  \<^verbatim>\<open>parseContent\<close> fills the document in place; the model returns it, or \<open>None\<close> when a
  call of \<^verbatim>\<open>this.parseFloat\<close> or a repeat loop does not return, or \<open>Unknown\<close>. The object
  of \<^verbatim>\<open>parseMaindata\<close> is always truthy, so that the sheet metadata are always set.
\<close>

definition parseContent :: "builtins \<Rightarrow> string \<Rightarrow> cixData \<Rightarrow> cixData run option" where
  "parseContent bi content cix =
     (let lines = split [CHR 0x0A] content;
          sheetDims = parseMaindata bi lines;
          sheetHeight = (case sheetDims ''LPY'' of Some v \<Rightarrow> v | None \<Rightarrow> Num 0);
          currentSheetHeight = (if js_truthy sheetHeight then sheetHeight else Num 0);
          cix = cix\<lparr>metadata := (metadata cix)
                  \<lparr>sheet_width := Some (case sheetDims ''LPX'' of Some v \<Rightarrow> v | None \<Rightarrow> Num 0),
                   sheet_height := Some (case sheetDims ''LPY'' of Some v \<Rightarrow> v | None \<Rightarrow> Num 0),
                   sheet_thickness := Some (case sheetDims ''LPZ'' of Some v \<Rightarrow> v | None \<Rightarrow> Num 18)\<rparr>\<rparr>;
          macros = parseMacros lines
      in rbind (labelPanels bi currentSheetHeight sheetDims macros []) (\<lambda>labels.
           let cix = cix\<lparr>panels := panels cix @ labels\<rparr>
           in rbind (parseRoutingPaths bi lines sheetHeight) (\<lambda>routingPaths.
                let cix = cix\<lparr>metadata := (metadata cix)\<lparr>routing_paths := Some routingPaths\<rparr>\<rparr>
                in rbind (parseDrillingFromMacros bi currentSheetHeight macros) (\<lambda>holes.
                     let cix = cix\<lparr>metadata := (metadata cix)\<lparr>drilling := Some holes\<rparr>\<rparr>
                     in Some (Known
                          (if labels = []
                           then cix\<lparr>parse_errors := parse_errors cix @
                                      [''No LABEL macros found in CIX file'']\<rparr>
                           else cix))))))"

text \<open>
  \<^verbatim>\<open>parse\<close>. In a run that is not \<open>Unknown\<close> no statement of \<^verbatim>\<open>parseContent\<close> throws (the
  two destructurings of a split at \<^verbatim>\<open>=\<close> are under the test that the string has one),
  so that the handler of \<^verbatim>\<open>parse\<close>, which pushes the message of an error to
  \<^verbatim>\<open>parse_errors\<close>, is not reached. \<open>None\<close> is a call of \<^verbatim>\<open>parse\<close> that does not return.
\<close>

definition parse :: "builtins \<Rightarrow> string \<Rightarrow> string \<Rightarrow> cixData run option" where
  "parse bi content fname =
     parseContent bi content
       \<lparr>filename = fname, sheetId = stripExtension fname, panels = [], raw_content = content,
        parse_errors = [], metadata = noMetadata\<rparr>"

section \<open>Notions of the specification\<close>



text \<open>
  The lower bound that the code keeps on the area of a panel: not below zero, or not
  below the area threshold.
\<close>

definition areaOk :: "jsnum \<Rightarrow> jsnum \<Rightarrow> bool" where
  "areaOk m a = (\<not> js_lt a (Num 0) \<or> \<not> js_lt a m)"

text \<open>
  A polygon claims a drill hole when the hole passes the three tests of the attaching
  loop: a finite centre, a radius that is not \<open>\<le> 0\<close>, and the centre in the polygon.
\<close>

definition claimsHole :: "vec2 list \<Rightarrow> drillHole \<Rightarrow> bool" where
  "claimsHole poly hole =
     (js_isFinite (hole_x hole) \<and> js_isFinite (hole_y hole) \<and>
      \<not> js_le (js_div (hole_diameter hole) (Num 2)) (Num 0) \<and>
      pointInPolygon (holeCenter hole) poly)"















section \<open>Example documents\<close>

text \<open>
  Concrete inputs for the examples below. The clipping library is a parameter of the
  model, so an example fixes the answers of the library on the paths of its document.
\<close>

definition rectPath :: "real \<Rightarrow> real \<Rightarrow> real \<Rightarrow> real \<Rightarrow> path" where
  "rectPath x0 y0 x1 y1 =
     [\<lparr>ipX = Num x0, ipY = Num y0\<rparr>, \<lparr>ipX = Num x1, ipY = Num y0\<rparr>,
      \<lparr>ipX = Num x1, ipY = Num y1\<rparr>, \<lparr>ipX = Num x0, ipY = Num y1\<rparr>]"

definition rectPoly :: "real \<Rightarrow> real \<Rightarrow> real \<Rightarrow> real \<Rightarrow> vec2 list" where
  "rectPoly x0 y0 x1 y1 =
     [\<lparr>vx = Num x0, vy = Num y0\<rparr>, \<lparr>vx = Num x1, vy = Num y0\<rparr>,
      \<lparr>vx = Num x1, vy = Num y1\<rparr>, \<lparr>vx = Num x0, vy = Num y1\<rparr>]"

text \<open>The area of a path on the integer grid, as \<^verbatim>\<open>ClipperLib.Area\<close> gives it up to the sign.\<close>

definition intArea :: "path \<Rightarrow> jsnum option" where
  "intArea p = Some (polygonArea (map (\<lambda>q. \<lparr>vx = ipX q, vy = ipY q\<rparr>) p))"

definition defaultOptions :: recoverOptions where
  "defaultOptions =
     \<lparr>defaultBitDiameterMm = None, depthRatio = None, minPanelArea = None, kerfScale = None\<rparr>"

text \<open>No parameter string of the examples is a number.\<close>

definition noNumber :: "string \<Rightarrow> jsnum" where
  "noNumber s = NaN"

definition sheetDoc :: "jsnum \<Rightarrow> jsnum \<Rightarrow> jsnum \<Rightarrow> cixData" where
  "sheetDoc w h t =
     \<lparr>filename = ''sheet.cix'', sheetId = ''sheet'', panels = [], raw_content = [],
      parse_errors = [],
      metadata = noMetadata\<lparr>sheet_width := Some w, sheet_height := Some h,
                   sheet_thickness := Some t, routing_paths := Some [], drilling := Some []\<rparr>\<rparr>"

definition labelAt :: "string \<Rightarrow> real \<Rightarrow> real \<Rightarrow> panelSpecification" where
  "labelAt name x y =
     \<lparr>spec_id = name, spec_width = Num 0, spec_height = Num 0, spec_thickness = Num 18,
      spec_geometry = [], spec_holes = [], spec_edges = [],
      spec_metadata = \<lparr>x_position = Num x, y_position = Num y, y_position_raw = Num y,
        rotation = Num 0, rotation_raw = Num 0, label_data = [], label_name = []\<rparr>\<rparr>"

text \<open>
  A sheet of 1000 by 500 by 18 cut in two by one straight through-cut at \<open>x = 500\<close> with a
  6 mm tool, and one label in the left part. The kerf is the strip from 497 to 503.
\<close>

definition cutPath :: routingPath where
  "cutPath =
     \<lparr>path_id = Some (Num 1),
      points = [\<lparr>pt_x = Num 500, pt_y = Num 0, pt_z = None, pt_type = Start, pt_center = None\<rparr>,
                \<lparr>pt_x = Num 500, pt_y = Num 500, pt_z = Some (Num (- 18)), pt_type = Line,
                  pt_center = None\<rparr>],
      params = Map.empty, max_depth = Num 18, diameter = Some (Num 6)\<rparr>"

definition cutDoc :: cixData where
  "cutDoc = (sheetDoc (Num 1000) (Num 500) (Num 18))
     \<lparr>panels := [labelAt ''A'' 200 250],
      metadata := (metadata (sheetDoc (Num 1000) (Num 500) (Num 18)))\<lparr>routing_paths := Some [cutPath]\<rparr>\<rparr>"

definition cutClipper :: clipper where
  "cutClipper =
     \<lparr>cl_offset = (\<lambda>p d. Inr [rectPath 497000 0 503000 500000]),
      cl_union = (\<lambda>ps. Inr ps),
      cl_difference = (\<lambda>s c.
         if c = [rectPath 497000 0 503000 500000]
         then Inr [rectPath 0 0 497000 500000, rectPath 503000 0 1000000 500000]
         else Inr [rectPath 497000 0 1000000 500000]),
      cl_differenceTree = (\<lambda>s c.
         if c = [rectPath 497000 0 503000 500000]
         then Inr [PolyNode (rectPath 0 0 497000 500000) False [],
                   PolyNode (rectPath 503000 0 1000000 500000) False []]
         else Inr [PolyNode (rectPath 497000 0 1000000 500000) False []]),
      cl_area = intArea\<rparr>"

text \<open>A path that cuts nothing: two points, no depth.\<close>

definition shallowPath :: routingPath where
  "shallowPath =
     \<lparr>path_id = Some (Num 2),
      points = [\<lparr>pt_x = Num 500, pt_y = Num 0, pt_z = None, pt_type = Start, pt_center = None\<rparr>,
                \<lparr>pt_x = Num 500, pt_y = Num 500, pt_z = Some (Num 0), pt_type = Line,
                  pt_center = None\<rparr>],
      params = Map.empty, max_depth = Num 0, diameter = None\<rparr>"

text \<open>
  The same sheet with one closed rectangular through-cut from (100, 100) to (900, 400)
  and one drill hole of diameter 8 at (500, 250), inside the rectangle. The kerf is the
  ring between the rectangles 97..903 by 97..403 and 103..897 by 103..397; the difference
  tree has the frame (the sheet with the outer rectangle as its hole) and, inside that
  hole, the island.
\<close>

definition ringPath :: routingPath where
  "ringPath =
     \<lparr>path_id = Some (Num 1),
      points = [\<lparr>pt_x = Num 100, pt_y = Num 100, pt_z = None, pt_type = Start, pt_center = None\<rparr>,
                \<lparr>pt_x = Num 900, pt_y = Num 100, pt_z = Some (Num (- 18)), pt_type = Line,
                  pt_center = None\<rparr>,
                \<lparr>pt_x = Num 900, pt_y = Num 400, pt_z = Some (Num (- 18)), pt_type = Line,
                  pt_center = None\<rparr>,
                \<lparr>pt_x = Num 100, pt_y = Num 400, pt_z = Some (Num (- 18)), pt_type = Line,
                  pt_center = None\<rparr>,
                \<lparr>pt_x = Num 100, pt_y = Num 100, pt_z = Some (Num (- 18)), pt_type = Line,
                  pt_center = None\<rparr>],
      params = Map.empty, max_depth = Num 18, diameter = Some (Num 6)\<rparr>"

definition centreHole :: drillHole where
  "centreHole = \<lparr>hole_x = Num 500, hole_y = Num 250, hole_diameter = Num 8, hole_depth = Num 10,
     hole_id = None\<rparr>"

definition ringDoc :: cixData where
  "ringDoc = (sheetDoc (Num 1000) (Num 500) (Num 18))
     \<lparr>metadata := (metadata (sheetDoc (Num 1000) (Num 500) (Num 18)))
        \<lparr>routing_paths := Some [ringPath], drilling := Some [centreHole]\<rparr>\<rparr>"

definition ringKerf :: paths where
  "ringKerf = [rectPath 97000 97000 903000 403000, rectPath 103000 103000 897000 397000]"

definition ringClipper :: clipper where
  "ringClipper =
     \<lparr>cl_offset = (\<lambda>p d. Inr ringKerf),
      cl_union = (\<lambda>ps. Inr ps),
      cl_difference = (\<lambda>s c.
         if c = ringKerf
         then Inr [rectPath 0 0 1000000 500000, rectPath 97000 97000 903000 403000,
                   rectPath 103000 103000 897000 397000]
         else Inr []),
      cl_differenceTree = (\<lambda>s c.
         if c = ringKerf
         then Inr [PolyNode (rectPath 0 0 1000000 500000) False
                     [PolyNode (rectPath 97000 97000 903000 403000) True
                        [PolyNode (rectPath 103000 103000 897000 397000) False []]]]
         else Inr []),
      cl_area = intArea\<rparr>"

text \<open>The pieces and panels of the two examples, and two more documents.\<close>

definition islandPiece :: piece where
  "islandPiece = \<lparr>piece_outer = rectPath 103000 103000 897000 397000, piece_holes = []\<rparr>"

definition framePiece :: piece where
  "framePiece = \<lparr>piece_outer = rectPath 0 0 1000000 500000,
     piece_holes = [rectPath 97000 97000 903000 403000]\<rparr>"

definition drilledDoc :: cixData where
  "drilledDoc = (sheetDoc (Num 1000) (Num 500) (Num 18))
     \<lparr>metadata := (metadata (sheetDoc (Num 1000) (Num 500) (Num 18)))\<lparr>drilling := Some [centreHole]\<rparr>\<rparr>"

definition rectPanel :: "real \<Rightarrow> real \<Rightarrow> real \<Rightarrow> real \<Rightarrow> recoveredPanel" where
  "rectPanel x0 y0 x1 y1 =
     \<lparr>polygon = rectPoly x0 y0 x1 y1, coords = Some (rectPoly x0 y0 x1 y1), panel_holes = Some [],
      drillHoles = None, area = Num ((x1 - x0) * (y1 - y0)), width = Num (x1 - x0),
      height = Num (y1 - y0), panel_bounds = (Num x0, Num y0, Num x1, Num y1)\<rparr>"

definition cutPieces :: "piece list" where
  "cutPieces = [flatPiece (rectPath 0 0 497000 500000), flatPiece (rectPath 503000 0 1000000 500000)]"

definition strayLabelDoc :: cixData where
  "strayLabelDoc = cutDoc\<lparr>panels := [labelAt ''B'' 500 250]\<rparr>"

text \<open>
  The sheet with the closed rectangular cut, without drill holes and with given labels,
  and the panel of its frame: the sheet with the rectangle 97..903 by 97..403 as its hole.
\<close>

definition moatDoc :: "panelSpecification list \<Rightarrow> cixData" where
  "moatDoc labels = (sheetDoc (Num 1000) (Num 500) (Num 18))
     \<lparr>panels := labels,
      metadata := (metadata (sheetDoc (Num 1000) (Num 500) (Num 18)))\<lparr>routing_paths := Some [ringPath]\<rparr>\<rparr>"

definition framePanel :: recoveredPanel where
  "framePanel =
     \<lparr>polygon = rectPoly 0 0 1000 500, coords = Some (rectPoly 0 0 1000 500),
      panel_holes = Some [rectPoly 97 97 903 403], drillHoles = None, area = Num 253364,
      width = Num 1000, height = Num 500, panel_bounds = (Num 0, Num 0, Num 1000, Num 500)\<rparr>"

subsection \<open>Example texts\<close>

text \<open>
  Built-in functions for the examples: decimal digits with an optional minus sign are
  numbers, every other string is taken for no number; \<^verbatim>\<open>eval\<close> runs forever on the text
  \<^verbatim>\<open>for(;;)1.-1.\<close> (an endless loop whose body is the expression \<open>1. - 1.\<close>) and throws on
  every other text.
\<close>

definition isDigit :: "char \<Rightarrow> bool" where
  "isDigit c = (48 \<le> (of_char c :: nat) \<and> (of_char c :: nat) \<le> 57)"

definition digitsValue :: "string \<Rightarrow> nat" where
  "digitsValue s = foldl (\<lambda>a c. 10 * a + (of_char c - 48)) 0 s"

definition demoNumber :: "string \<Rightarrow> jsnum" where
  "demoNumber s =
     (if s \<noteq> [] \<and> list_all isDigit s then Num (real (digitsValue s))
      else if s \<noteq> [] \<and> hd s = CHR ''-'' \<and> tl s \<noteq> [] \<and> list_all isDigit (tl s)
      then Num (- real (digitsValue (tl s)))
      else NaN)"

definition demoBuiltins :: builtins where
  "demoBuiltins =
     \<lparr>js_parseFloat = demoNumber, js_parseInt = demoNumber,
      js_eval = (\<lambda>s. if s = ''for(;;)1.-1.'' then Diverges else Throws)\<rparr>"


text \<open>
  Texts of CIX files: a sheet with one drilling macro repeated three times, a sheet with
  a routing path with one cut down to 18, a label whose X value is an endless loop, and sheet
  dimensions with a malformed width and no thickness in the block, and two keys outside
  of it.
\<close>

definition unlines :: "string list \<Rightarrow> string" where
  "unlines ls = concat (map (\<lambda>l. l @ [CHR 0x0A]) ls)"




definition loopText :: string where
  "loopText = unlines
     [''BEGIN MACRO'', ''NAME=LABEL'', ''PARAM,NAME=X,VALUE=for(;;)1.-1.'', ''END MACRO'']"




section \<open>Lemmas\<close>

subsection \<open>Sequencing and kerfs\<close>

lemma ebind_simps [simp]: "ebind (Inl e) f = Inl e" "ebind (Inr v) f = f v"
  by (simp_all add: ebind_def)

lemma ebind_assoc: "ebind (ebind m f) g = ebind m (\<lambda>v. ebind (f v) g)"
  by (cases m) simp_all

lemma addKerfs_Cons:
  "addKerfsForPaths cl opts (p # ps) k = ebind (addKerfsForPaths cl opts [p] k) (addKerfsForPaths cl opts ps)"
  by (simp add: Let_def ebind_assoc)

lemma throughCutKerfs_filter:
  "throughCutKerfs cl nm opts T ps k =
     addKerfsForPaths cl opts (filter (\<lambda>p. isThroughCut nm p T (optDepthRatio opts)) ps) k"
proof (induction ps arbitrary: k)
  case Nil
  show ?case by simp
next
  case (Cons p ps)
  show ?case
  proof (cases "isThroughCut nm p T (optDepthRatio opts)")
    case True
    have "throughCutKerfs cl nm opts T ps =
            addKerfsForPaths cl opts (filter (\<lambda>p. isThroughCut nm p T (optDepthRatio opts)) ps)"
      by (rule ext) (rule Cons.IH)
    with True show ?thesis
      using addKerfs_Cons [of cl opts p "filter (\<lambda>p. isThroughCut nm p T (optDepthRatio opts)) ps" k]
      by (simp del: addKerfsForPaths.simps)
  next
    case False
    then show ?thesis using Cons.IH by simp
  qed
qed


subsection \<open>Depth of a path\<close>







subsection \<open>Areas\<close>

lemma polygonArea_not_lt0: "\<not> js_lt (polygonArea r) (Num 0)"
  by (cases "shoelaceSum r") (simp_all add: polygonArea_def js_inf_of_sign_def)

lemma js_isFinite_iff: "js_isFinite a = (\<exists>r. a = Num r)"
  by (cases a) simp_all

lemma attachToPanel_area:
  "area (attachToPanel hs p) = area p \<or> (\<exists>a. area (attachToPanel hs p) = Num a \<and> a \<ge> 0)"
  unfolding attachToPanel_def
  by (auto simp: Let_def js_isFinite_iff max_def split: prod.splits)

lemma attachToPanel_polygon: "polygon (attachToPanel hs p) = polygon p"
  unfolding attachToPanel_def by (auto simp: Let_def split: prod.splits)

lemma attachToPanel_areaOk:
  assumes "areaOk m (area p)"
  shows "areaOk m (area (attachToPanel hs p))"
  using attachToPanel_area[of hs p] assms by (auto simp: areaOk_def)

lemma attach_areaOk:
  assumes "list_all (\<lambda>p. areaOk m (area p)) ps"
  shows "list_all (\<lambda>p. areaOk m (area p)) (attachDrillHolesToPanels ps hs)"
  using assms attachToPanel_areaOk
  by (auto simp: attachDrillHolesToPanels_def list_all_iff)

lemma sheetPanel_area:
  assumes "\<not> js_le W (Num 0)" "\<not> js_le H (Num 0)"
  shows "\<not> js_lt (area (sheetPanel W H)) (Num 0)"
  using assms by (cases W; cases H) (auto simp: sheetPanel_def Let_def js_inf_of_sign_def mult_less_0_iff)

lemma panelOfPiece_area: "panelOfPiece cl m pc = Some p \<Longrightarrow> \<not> js_lt (area p) m"
  by (auto simp: panelOfPiece_def Let_def split: if_splits)

lemma map_filter_all:
  assumes "\<And>x y. f x = Some y \<Longrightarrow> P y"
  shows "list_all P (List.map_filter f xs)"
  using assms by (induction xs) (auto simp: List.map_filter_simps split: option.splits)

lemma survivingPanels_areaOk:
  "list_all (\<lambda>p. areaOk (optMinPanelArea opts) (area p)) (survivingPanels cl opts cix rem)"
  unfolding survivingPanels_def
  by (rule attach_areaOk, rule map_filter_all) (simp add: areaOk_def panelOfPiece_area)

lemma finalPanels_subset: "set (finalPanels lps ps) \<subseteq> set ps"
  by (auto simp: finalPanels_def labeledPanels_def split: if_splits)

lemma labelPoints_filter:
  "labelPoints cix =
     map (\<lambda>l. \<lparr>vx = x_position (spec_metadata l), vy = y_position (spec_metadata l)\<rparr>)
       (filter (\<lambda>l. js_isFinite (x_position (spec_metadata l)) \<and> js_isFinite (y_position (spec_metadata l)))
          (panels cix))"
proof -
  have "List.map_filter
       (\<lambda>panel. let x = x_position (spec_metadata panel); y = y_position (spec_metadata panel)
                in if js_isFinite x \<and> js_isFinite y then Some \<lparr>vx = x, vy = y\<rparr> else None) ls =
     map (\<lambda>l. \<lparr>vx = x_position (spec_metadata l), vy = y_position (spec_metadata l)\<rparr>)
       (filter (\<lambda>l. js_isFinite (x_position (spec_metadata l)) \<and> js_isFinite (y_position (spec_metadata l)))
          ls)" for ls :: "panelSpecification list"
    by (induction ls) (simp_all add: List.map_filter_simps Let_def)
  then show ?thesis by (simp add: labelPoints_def)
qed

lemma withHoles_iff:
  "pointInPolygonWithHoles pt (polygon panel) (panelHoles panel) =
     (pointInPolygon pt (polygon panel) \<and>
      (\<forall>hole\<in>set (case panel_holes panel of Some hs \<Rightarrow> hs | None \<Rightarrow> []).
          hole = [] \<or> \<not> pointInPolygon pt hole))"
  by (auto simp: pointInPolygonWithHoles_def panelHoles_def list_ex_iff)

lemma labeledPanels_filter:
  "labeledPanels lps pnls =
     (if lps \<noteq> []
      then filter (\<lambda>panel. \<exists>pt\<in>set lps. pointInPolygon pt (polygon panel) \<and>
                      (\<forall>hole\<in>set (case panel_holes panel of Some hs \<Rightarrow> hs | None \<Rightarrow> []).
                          hole = [] \<or> \<not> pointInPolygon pt hole)) pnls
      else [])"
  by (simp add: labeledPanels_def list_ex_iff withHoles_iff)

lemma recover_areaOk:
  assumes "recoverPanelsFromRouting cl nm cix opts = Inr (ps, cix')"
  shows "list_all (\<lambda>p. areaOk (optMinPanelArea opts) (area p)) ps"
proof -
  let ?W = "docSheetW cix" and ?H = "docSheetH cix"
  let ?ok = "\<lambda>p. areaOk (optMinPanelArea opts) (area p)"
  show ?thesis
  proof (cases "js_le ?W (Num 0) \<or> js_le ?H (Num 0)")
    case True
    with assms show ?thesis by (auto simp: recoverPanelsFromRouting_def Let_def)
  next
    case False
    then have sp: "list_all ?ok [sheetPanel ?W ?H]"
      using sheetPanel_area[of ?W ?H] by (simp add: areaOk_def)
    have sheet: "\<And>hs. list_all ?ok (attachDrillHolesToPanels [sheetPanel ?W ?H] hs)"
      by (rule attach_areaOk) (rule sp)
    have fin: "\<And>lps c rem. list_all ?ok (finalPanels lps (survivingPanels cl opts c rem))"
      using survivingPanels_areaOk[of opts cl] finalPanels_subset
      by (fastforce simp: list_all_iff)
    from assms False show ?thesis
      using sheet fin
      by (auto simp: recoverPanelsFromRouting_def Let_def ebind_def
          split: sum.splits if_splits prod.splits)
  qed
qed

subsection \<open>Drill holes and the cases of the recovery\<close>

lemma circlePath_length:
  assumes "js_isFinite (vx c)" "js_isFinite (vy c)" "\<not> js_le r (Num 0)"
  shows "length (circlePath c r 40) = 40"
  using assms by (simp add: circlePath_def Let_def)

lemma attachStep_assigned:
  "fst (snd (attachStep p (ph, as, ar) h)) = (if claimsHole (polygon p) h then as @ [h] else as)"
  by (auto simp: attachStep_def claimsHole_def Let_def holeCenter_def circlePath_length)

lemma foldl_attachStep_assigned:
  "fst (snd (foldl (attachStep p) (ph, as, ar) hs)) = as @ filter (claimsHole (polygon p)) hs"
proof (induction hs arbitrary: ph as ar)
  case Nil
  show ?case by simp
next
  case (Cons h hs)
  obtain ph' as' ar' where st: "attachStep p (ph, as, ar) h = (ph', as', ar')"
    by (cases "attachStep p (ph, as, ar) h") auto
  have "as' = (if claimsHole (polygon p) h then as @ [h] else as)"
    using attachStep_assigned[of p ph as ar h] st by simp
  then show ?case using Cons.IH[of ph' as' ar'] st by simp
qed

lemma attachToPanel_drillHoles:
  "drillHoles (attachToPanel hs p) =
     (if filter (claimsHole (polygon p)) hs = [] then drillHoles p
      else Some (filter (claimsHole (polygon p)) hs))"
proof -
  obtain ph as ar where st:
    "foldl (attachStep p) (case panel_holes p of Some hs \<Rightarrow> hs | None \<Rightarrow> [], [], area p) hs = (ph, as, ar)"
    by (metis prod_cases3)
  have "as = filter (claimsHole (polygon p)) hs"
    using foldl_attachStep_assigned[of p "case panel_holes p of Some hs \<Rightarrow> hs | None \<Rightarrow> []" "[]" "area p" hs] st
    by simp
  then show ?thesis using st by (simp add: attachToPanel_def Let_def)
qed

lemma attach_drillHoles:
  assumes "p \<in> set (attachDrillHolesToPanels ps hs)" "\<forall>q\<in>set ps. drillHoles q = None"
  shows "drillHoles p =
     (if filter (claimsHole (polygon p)) hs = [] then None
      else Some (filter (claimsHole (polygon p)) hs))"
proof (cases "hs = []")
  case True
  with assms show ?thesis by (simp add: attachDrillHolesToPanels_def)
next
  case False
  with assms obtain q where q: "q \<in> set ps" "p = attachToPanel hs q"
    by (auto simp: attachDrillHolesToPanels_def)
  then show ?thesis
    using assms(2) by (simp add: attachToPanel_drillHoles attachToPanel_polygon)
qed

lemma panelOfPiece_drillHoles: "panelOfPiece cl m pc = Some p \<Longrightarrow> drillHoles p = None"
  by (auto simp: panelOfPiece_def Let_def split: if_splits)

lemma map_filter_set:
  "y \<in> set (List.map_filter f xs) \<Longrightarrow> \<exists>x\<in>set xs. f x = Some y"
  by (induction xs) (auto simp: List.map_filter_simps split: option.splits)

lemma survivingPanels_drillHoles:
  assumes "p \<in> set (survivingPanels cl opts c rem)"
  shows "drillHoles p =
     (if filter (claimsHole (polygon p)) (docDrilling c) = [] then None
      else Some (filter (claimsHole (polygon p)) (docDrilling c)))"
  using assms unfolding survivingPanels_def
  by (rule attach_drillHoles) (auto dest!: map_filter_set simp: panelOfPiece_drillHoles)

lemma sheet_drillHoles:
  assumes "p \<in> set (attachDrillHolesToPanels [sheetPanel W H] hs)"
  shows "drillHoles p =
     (if filter (claimsHole (polygon p)) hs = [] then None
      else Some (filter (claimsHole (polygon p)) hs))"
  using assms by (rule attach_drillHoles) (simp add: sheetPanel_def Let_def)

lemma remainingPieces_drilling:
  "remainingPieces cl sp ku c = Inr (rem, c') \<Longrightarrow> docDrilling c' = docDrilling c \<and> labelPoints c' = labelPoints c"
  by (auto simp: remainingPieces_def Let_def ebind_def docDrilling_def labelPoints_def
      split: sum.splits if_splits)

lemma setKerf_drilling [simp]:
  "docDrilling (setKerfPolygons k c) = docDrilling c" "labelPoints (setKerfPolygons k c) = labelPoints c"
  by (simp_all add: setKerfPolygons_def docDrilling_def labelPoints_def)

lemma recover_cases:
  assumes "recoverPanelsFromRouting cl nm cix opts = Inr (ps, cix')"
  obtains
    (early) "js_le (docSheetW cix) (Num 0) \<or> js_le (docSheetH cix) (Num 0)" "ps = []"
  | (sheet) "\<not> js_le (docSheetW cix) (Num 0)" "\<not> js_le (docSheetH cix) (Num 0)"
      "ps = attachDrillHolesToPanels [sheetPanel (docSheetW cix) (docSheetH cix)] (docDrilling cix)"
  | (pieces) c rem where "\<not> js_le (docSheetW cix) (Num 0)" "\<not> js_le (docSheetH cix) (Num 0)"
      "docDrilling c = docDrilling cix" "labelPoints c = labelPoints cix"
      "survivingPanels cl opts c rem \<noteq> []"
      "ps = finalPanels (labelPoints cix) (survivingPanels cl opts c rem)"
proof (cases "js_le (docSheetW cix) (Num 0) \<or> js_le (docSheetH cix) (Num 0)")
  case True
  with assms have "ps = []" by (auto simp: recoverPanelsFromRouting_def Let_def)
  with True show ?thesis by (rule early)
next
  case False
  let ?W = "docSheetW cix" and ?H = "docSheetH cix"
  from False assms obtain kerfs where k:
    "collectKerfs cl nm opts (docSheetT cix) (docRouting cix) = Inr kerfs"
    by (cases "collectKerfs cl nm opts (docSheetT cix) (docRouting cix)")
      (auto simp: recoverPanelsFromRouting_def Let_def)
  show ?thesis
  proof (cases "kerfs = []")
    case True
    with False assms k have "ps = attachDrillHolesToPanels [sheetPanel ?W ?H] (docDrilling cix)"
      by (auto simp: recoverPanelsFromRouting_def Let_def)
    with False show ?thesis by (intro sheet) auto
  next
    case nk: False
    from False assms k nk obtain ku where u: "unionPaths cl kerfs = Inr ku"
      by (cases "unionPaths cl kerfs") (auto simp: recoverPanelsFromRouting_def Let_def)
    let ?kp = "if ku = [] then [] else filter (\<lambda>poly. length poly \<ge> 3) (map fromPath ku)"
    from False assms k nk u obtain rem c where r:
      "remainingPieces cl [sheetRing ?W ?H] ku (setKerfPolygons ?kp cix) = Inr (rem, c)"
      by (cases "remainingPieces cl [sheetRing ?W ?H] ku (setKerfPolygons ?kp cix)")
        (auto simp: recoverPanelsFromRouting_def Let_def)
    have same: "docDrilling c = docDrilling cix" "labelPoints c = labelPoints cix"
      using remainingPieces_drilling[OF r] by simp_all
    show ?thesis
    proof (cases "survivingPanels cl opts c rem = []")
      case True
      with False assms k nk u r same
      have "ps = attachDrillHolesToPanels [sheetPanel ?W ?H] (docDrilling cix)"
        by (auto simp: recoverPanelsFromRouting_def Let_def)
      with False show ?thesis by (intro sheet) auto
    next
      case sv: False
      with False assms k nk u r same
      have "ps = finalPanels (labelPoints cix) (survivingPanels cl opts c rem)"
        by (auto simp: recoverPanelsFromRouting_def Let_def)
      with False same sv show ?thesis by (intro pieces[of c rem]) auto
    qed
  qed
qed


subsection \<open>A sheet without routing\<close>

lemma sheetPanel_polygon:
  "polygon (sheetPanel W H) =
     [\<lparr>vx = Num 0, vy = Num 0\<rparr>,
      \<lparr>vx = js_div (js_round (js_mul W (Num 1000))) (Num 1000), vy = Num 0\<rparr>,
      \<lparr>vx = js_div (js_round (js_mul W (Num 1000))) (Num 1000),
       vy = js_div (js_round (js_mul H (Num 1000))) (Num 1000)\<rparr>,
      \<lparr>vx = Num 0, vy = js_div (js_round (js_mul H (Num 1000))) (Num 1000)\<rparr>]"
  by (simp add: sheetPanel_def sheetRing_def fromPath_def toPath_def SCALE_def Let_def)

lemma collectKerfs_no_routing: "collectKerfs cl nm opts T [] = Inr []"
  by (simp add: collectKerfs_def)

lemma recover_no_routing:
  assumes "\<not> js_le (docSheetW cix) (Num 0)" "\<not> js_le (docSheetH cix) (Num 0)" "docRouting cix = []"
  shows "recoverPanelsFromRouting cl nm cix opts =
     Inr (attachDrillHolesToPanels [sheetPanel (docSheetW cix) (docSheetH cix)] (docDrilling cix),
          setRemovedPolygons [] (setKerfPolygons [] cix))"
  using assms by (simp add: recoverPanelsFromRouting_def collectKerfs_no_routing Let_def)

lemma js_gt_not_le: "js_gt a (Num 0) \<Longrightarrow> \<not> js_le a (Num 0)"
  by (cases a) (auto simp: js_gt_def)

lemma not_lt0_iff: "(\<not> js_lt a (Num 0)) = (js_ge a (Num 0) \<or> a = NaN)"
  by (cases a) (auto simp: js_ge_def)

lemma areaOk_nonneg:
  assumes "areaOk m a" "js_ge m (Num 0)"
  shows "js_ge a (Num 0) \<or> a = NaN"
  using assms by (cases a; cases m) (auto simp: areaOk_def js_ge_def)


subsection \<open>Evaluation of the examples\<close>

lemmas upt4 = upt_rec[of 0] upt_rec[of 1] upt_rec[of 2] upt_rec[of 3] upt_rec[of 4]

lemmas geom_defs = polygonArea_def shoelaceSum_def shoelaceTerm_def js_sub_def js_gt_def js_ge_def
  pointInPolygon_def pointInPolygonWithHoles_def onBoundary_def crossesRay_def fromPath_def toPath_def
  SCALE_def bounds_def js_min_list_def js_max_list_def

lemmas opt_defs = defaultOptions_def optDepthRatio_def optKerfScale_def optDefaultBit_def
  optMinPanelArea_def

lemmas doc_defs = sheetDoc_def noMetadata_def docDrilling_def docRouting_def docSheetW_def
  docSheetH_def docSheetT_def

lemma rectPath_nonempty [simp]: "rectPath a b c d \<noteq> []"
  by (simp add: rectPath_def)

lemma shallow_not_cut: "\<not> isThroughCut noNumber shallowPath (Num 18) (optDepthRatio defaultOptions)"
  by (simp add: isThroughCut_def pathDepth_def tryParse_def shallowPath_def opt_defs js_ge_def Let_def)

lemma shallow_kerfs:
  "addKerfsForPaths cutClipper defaultOptions [shallowPath] [] = Inr [rectPath 497000 0 503000 500000]"
  by (simp add: shallowPath_def opt_defs offsetOpenPath_def cutClipper_def Let_def)

lemma plain_recover:
  "recoverPanelsFromRouting cutClipper noNumber (sheetDoc (Num 100) (Num 50) (Num 18)) defaultOptions =
     Inr ([sheetPanel (Num 100) (Num 50)],
          setRemovedPolygons [] (setKerfPolygons [] (sheetDoc (Num 100) (Num 50) (Num 18))))"
  by (simp add: recoverPanelsFromRouting_def collectKerfs_def doc_defs attachDrillHolesToPanels_def Let_def)

lemma ring_kerfs:
  "collectKerfs ringClipper noNumber defaultOptions (Num 18) [ringPath] = Inr ringKerf"
  by (simp add: collectKerfs_def isThroughCut_def pathDepth_def tryParse_def ringPath_def opt_defs
      js_ge_def offsetOpenPath_def ringClipper_def Let_def)

lemma ringKerf_nonempty: "ringKerf \<noteq> []"
  by (simp add: ringKerf_def)

lemma ring_union: "unionPaths ringClipper ringKerf = Inr ringKerf"
  by (simp add: unionPaths_def ringClipper_def)

lemma ring_remaining:
  "remainingPieces ringClipper [sheetRing (Num 1000) (Num 500)] ringKerf c =
     Inr ([islandPiece, framePiece], c)"
  by (simp add: remainingPieces_def differenceWithHoles_def ringClipper_def Let_def islandPiece_def
      framePiece_def)

lemma island_panel:
  "\<exists>q. panelOfPiece ringClipper (Num 1000) islandPiece = Some q \<and>
       polygon q = rectPoly 103 103 897 397 \<and> drillHoles q = None"
  by (simp add: panelOfPiece_def islandPiece_def ringClipper_def intArea_def rectPath_def rectPoly_def
      geom_defs upt4 Let_def)

lemma frame_panel:
  "\<exists>q. panelOfPiece ringClipper (Num 1000) framePiece = Some q \<and>
       polygon q = rectPoly 0 0 1000 500 \<and> drillHoles q = None"
  by (simp add: panelOfPiece_def framePiece_def ringClipper_def intArea_def rectPath_def rectPoly_def
      geom_defs upt4 Let_def)

lemma centre_in_island: "claimsHole (rectPoly 103 103 897 397) centreHole"
  by (simp add: claimsHole_def centreHole_def holeCenter_def rectPoly_def geom_defs upt4 Let_def)

lemma centre_in_frame: "claimsHole (rectPoly 0 0 1000 500) centreHole"
  by (simp add: claimsHole_def centreHole_def holeCenter_def rectPoly_def geom_defs upt4 Let_def)

lemma ring_doc_facts:
  "docSheetW ringDoc = Num 1000" "docSheetH ringDoc = Num 500" "docSheetT ringDoc = Num 18"
  "docRouting ringDoc = [ringPath]" "docDrilling ringDoc = [centreHole]" "labelPoints ringDoc = []"
  by (simp_all add: ringDoc_def doc_defs labelPoints_def List.map_filter_simps)

lemma ring_surviving:
  assumes "docDrilling c = [centreHole]"
  shows "\<exists>p1 p2. survivingPanels ringClipper defaultOptions c [islandPiece, framePiece] = [p1, p2] \<and>
           polygon p1 = rectPoly 103 103 897 397 \<and> polygon p2 = rectPoly 0 0 1000 500 \<and>
           drillHoles p1 = Some [centreHole] \<and> drillHoles p2 = Some [centreHole]"
proof -
  obtain q1 where q1: "panelOfPiece ringClipper (Num 1000) islandPiece = Some q1"
    "polygon q1 = rectPoly 103 103 897 397" "drillHoles q1 = None"
    using island_panel by blast
  obtain q2 where q2: "panelOfPiece ringClipper (Num 1000) framePiece = Some q2"
    "polygon q2 = rectPoly 0 0 1000 500" "drillHoles q2 = None"
    using frame_panel by blast
  have "survivingPanels ringClipper defaultOptions c [islandPiece, framePiece] =
          [attachToPanel [centreHole] q1, attachToPanel [centreHole] q2]"
    using q1(1) q2(1) assms
    by (simp add: survivingPanels_def List.map_filter_simps opt_defs attachDrillHolesToPanels_def)
  moreover have "drillHoles (attachToPanel [centreHole] q1) = Some [centreHole]"
    using q1 centre_in_island by (simp add: attachToPanel_drillHoles)
  moreover have "drillHoles (attachToPanel [centreHole] q2) = Some [centreHole]"
    using q2 centre_in_frame by (simp add: attachToPanel_drillHoles)
  ultimately show ?thesis using q1(2) q2(2) by (simp add: attachToPanel_polygon)
qed

lemma cut_doc_facts:
  "docSheetW (cutDoc\<lparr>panels := ls\<rparr>) = Num 1000" "docSheetH (cutDoc\<lparr>panels := ls\<rparr>) = Num 500"
  "docSheetT (cutDoc\<lparr>panels := ls\<rparr>) = Num 18" "docRouting (cutDoc\<lparr>panels := ls\<rparr>) = [cutPath]"
  "docDrilling (cutDoc\<lparr>panels := ls\<rparr>) = []"
  by (simp_all add: cutDoc_def doc_defs)

lemma cut_labels:
  "labelPoints cutDoc = [\<lparr>vx = Num 200, vy = Num 250\<rparr>]"
  "labelPoints strayLabelDoc = [\<lparr>vx = Num 500, vy = Num 250\<rparr>]"
  by (simp_all add: labelPoints_def cutDoc_def strayLabelDoc_def sheetDoc_def labelAt_def
      List.map_filter_simps)

lemma cut_kerfs:
  "collectKerfs cutClipper noNumber defaultOptions (Num 18) [cutPath] = Inr [rectPath 497000 0 503000 500000]"
  by (simp add: collectKerfs_def isThroughCut_def pathDepth_def tryParse_def cutPath_def opt_defs
      js_ge_def offsetOpenPath_def cutClipper_def Let_def)

lemma cut_union:
  "unionPaths cutClipper [rectPath 497000 0 503000 500000] = Inr [rectPath 497000 0 503000 500000]"
  by (simp add: unionPaths_def cutClipper_def)

lemma cut_remaining:
  "remainingPieces cutClipper [sheetRing (Num 1000) (Num 500)] [rectPath 497000 0 503000 500000] c =
     Inr (cutPieces, c)"
  by (simp add: remainingPieces_def differenceWithHoles_def cutClipper_def cutPieces_def flatPiece_def
      Let_def)

lemma cut_surviving:
  assumes "docDrilling c = []"
  shows "survivingPanels cutClipper defaultOptions c cutPieces =
           [rectPanel 0 0 497 500, rectPanel 503 0 1000 500]"
  using assms
  by (simp add: survivingPanels_def List.map_filter_simps panelOfPiece_def cutClipper_def intArea_def
      cutPieces_def flatPiece_def rectPath_def rectPanel_def rectPoly_def opt_defs
      attachDrillHolesToPanels_def Let_def geom_defs upt4)

lemma moat_doc_facts:
  "docSheetW (moatDoc ls) = Num 1000" "docSheetH (moatDoc ls) = Num 500"
  "docSheetT (moatDoc ls) = Num 18" "docRouting (moatDoc ls) = [ringPath]"
  "docDrilling (moatDoc ls) = []"
  "labelPoints (moatDoc [labelAt name x y]) = [\<lparr>vx = Num x, vy = Num y\<rparr>]"
  by (simp_all add: moatDoc_def doc_defs labelPoints_def labelAt_def List.map_filter_simps)

lemma moat_surviving:
  assumes "docDrilling c = []"
  shows "survivingPanels ringClipper defaultOptions c [islandPiece, framePiece] =
           [rectPanel 103 103 897 397, framePanel]"
  using assms
  by (simp add: survivingPanels_def List.map_filter_simps panelOfPiece_def ringClipper_def intArea_def
      islandPiece_def framePiece_def rectPath_def rectPanel_def framePanel_def rectPoly_def opt_defs
      attachDrillHolesToPanels_def Let_def geom_defs upt4)

lemma points_in_rects:
  "pointInPolygon \<lparr>vx = Num 200, vy = Num 250\<rparr> (rectPoly 0 0 497 500)"
  "\<not> pointInPolygon \<lparr>vx = Num 200, vy = Num 250\<rparr> (rectPoly 503 0 1000 500)"
  "\<not> pointInPolygon \<lparr>vx = Num 500, vy = Num 250\<rparr> (rectPoly 0 0 497 500)"
  "\<not> pointInPolygon \<lparr>vx = Num 500, vy = Num 250\<rparr> (rectPoly 503 0 1000 500)"
  "pointInPolygon \<lparr>vx = Num 200, vy = Num 200\<rparr> (rectPoly 103 103 897 397)"
  "pointInPolygon \<lparr>vx = Num 200, vy = Num 200\<rparr> (rectPoly 0 0 1000 500)"
  "pointInPolygon \<lparr>vx = Num 200, vy = Num 200\<rparr> (rectPoly 97 97 903 403)"
  "\<not> pointInPolygon \<lparr>vx = Num 50, vy = Num 50\<rparr> (rectPoly 103 103 897 397)"
  "pointInPolygon \<lparr>vx = Num 50, vy = Num 50\<rparr> (rectPoly 0 0 1000 500)"
  "\<not> pointInPolygon \<lparr>vx = Num 50, vy = Num 50\<rparr> (rectPoly 97 97 903 403)"
  "\<not> pointInPolygon \<lparr>vx = Num 100, vy = Num 100\<rparr> (rectPoly 103 103 897 397)"
  "pointInPolygon \<lparr>vx = Num 100, vy = Num 100\<rparr> (rectPoly 0 0 1000 500)"
  "pointInPolygon \<lparr>vx = Num 100, vy = Num 100\<rparr> (rectPoly 97 97 903 403)"
  by (simp_all add: rectPoly_def geom_defs upt4 Let_def)

lemma rect_nonempty: "rectPoly a b c d \<noteq> []"
  by (simp add: rectPoly_def)


subsection \<open>The area of the polygon of a drill hole\<close>

lemma foldl_js_add_Num:
  assumes "\<forall>i\<in>set is. f i = Num (g i)"
  shows "foldl (\<lambda>sum i. js_add sum (f i)) (Num a) is = Num (a + sum_list (map g is))"
  using assms by (induction "is" arbitrary: a) (simp_all add: add.assoc)

lemma shoelaceSum_real:
  assumes "r = map (\<lambda>i. \<lparr>vx = Num (X i), vy = Num (Y i)\<rparr>) [0..<n]"
  shows "shoelaceSum r = Num (\<Sum>i<n. X i * Y ((i + 1) mod n) - X ((i + 1) mod n) * Y i)"
proof -
  have len: "length r = n" using assms by simp
  have t: "\<forall>i\<in>set [0..<n]. shoelaceTerm r i = Num (X i * Y ((i + 1) mod n) - X ((i + 1) mod n) * Y i)"
  proof
    fix i assume "i \<in> set [0..<n]"
    then have i: "i < n" by simp
    then have j: "(i + 1) mod n < n" by (intro mod_less_divisor) auto
    show "shoelaceTerm r i = Num (X i * Y ((i + 1) mod n) - X ((i + 1) mod n) * Y i)"
      using i j by (simp add: shoelaceTerm_def len Let_def js_sub_def assms)
  qed
  have "shoelaceSum r = Num (0 + sum_list (map (\<lambda>i. X i * Y ((i + 1) mod n) - X ((i + 1) mod n) * Y i) [0..<n]))"
    unfolding shoelaceSum_def len by (rule foldl_js_add_Num) (rule t)
  also have "sum_list (map (\<lambda>i. X i * Y ((i + 1) mod n) - X ((i + 1) mod n) * Y i) [0..<n]) =
             (\<Sum>i<n. X i * Y ((i + 1) mod n) - X ((i + 1) mod n) * Y i)"
    by (simp add: interv_sum_list_conv_sum_set_nat atLeast0LessThan)
  finally show ?thesis by simp
qed

lemma ngon_sum:
  fixes cx cy r :: real
  assumes "n > 0"
  defines "th \<equiv> \<lambda>i::nat. pi * 2 * real i / real n"
  defines "X \<equiv> \<lambda>i. cx + cos (th i) * r" and "Y \<equiv> \<lambda>i. cy + sin (th i) * r"
  shows "(\<Sum>i<n. X i * Y ((i + 1) mod n) - X ((i + 1) mod n) * Y i) = real n * r\<^sup>2 * sin (2 * pi / real n)"
proof -
  have thn: "th n = 2 * pi" using assms(1) by (simp add: th_def)
  have th0: "th 0 = 0" by (simp add: th_def)
  have wrap: "\<And>i. i < n \<Longrightarrow> X ((i + 1) mod n) = X (i + 1) \<and> Y ((i + 1) mod n) = Y (i + 1)"
  proof -
    fix i assume "i < n"
    show "X ((i + 1) mod n) = X (i + 1) \<and> Y ((i + 1) mod n) = Y (i + 1)"
    proof (cases "i + 1 = n")
      case True
      then show ?thesis using thn th0 by (simp add: X_def Y_def)
    next
      case False
      with \<open>i < n\<close> have "(i + 1) mod n = i + 1" by simp
      then show ?thesis by simp
    qed
  qed
  have step: "\<And>i. th (i + 1) - th i = 2 * pi / real n"
    using assms(1) by (simp add: th_def field_simps)
  have tm: "\<And>i. X i * Y (i + 1) - X (i + 1) * Y i =
      cx * r * (sin (th (i + 1)) - sin (th i)) - cy * r * (cos (th (i + 1)) - cos (th i)) +
      r\<^sup>2 * sin (2 * pi / real n)"
  proof -
    fix i
    have "sin (th (i + 1) - th i) = sin (th (i + 1)) * cos (th i) - cos (th (i + 1)) * sin (th i)"
      by (rule sin_diff)
    then have s: "sin (2 * pi / real n) = sin (th (i + 1)) * cos (th i) - cos (th (i + 1)) * sin (th i)"
      by (simp only: step)
    show "X i * Y (i + 1) - X (i + 1) * Y i =
      cx * r * (sin (th (i + 1)) - sin (th i)) - cy * r * (cos (th (i + 1)) - cos (th i)) +
      r\<^sup>2 * sin (2 * pi / real n)"
      unfolding s X_def Y_def by (simp add: algebra_simps power2_eq_square)
  qed
  have "(\<Sum>i<n. X i * Y ((i + 1) mod n) - X ((i + 1) mod n) * Y i) =
        (\<Sum>i<n. X i * Y (i + 1) - X (i + 1) * Y i)"
    by (rule sum.cong) (use wrap in auto)
  also have "\<dots> = (\<Sum>i<n. cx * r * (sin (th (i + 1)) - sin (th i)) -
                        cy * r * (cos (th (i + 1)) - cos (th i)) + r\<^sup>2 * sin (2 * pi / real n))"
    by (simp only: tm)
  also have "\<dots> = cx * r * (\<Sum>i<n. sin (th (Suc i)) - sin (th i)) -
                   cy * r * (\<Sum>i<n. cos (th (Suc i)) - cos (th i)) + real n * (r\<^sup>2 * sin (2 * pi / real n))"
    by (simp add: sum.distrib sum_subtractf flip: sum_distrib_left)
  also have "(\<Sum>i<n. sin (th (Suc i)) - sin (th i)) = sin (th n) - sin (th 0)"
    by (rule sum_lessThan_telescope)
  also have "(\<Sum>i<n. cos (th (Suc i)) - cos (th i)) = cos (th n) - cos (th 0)"
    by (rule sum_lessThan_telescope)
  finally show ?thesis by (simp add: thn th0)
qed

lemma circlePath_area:
  assumes "0 < r"
  shows "polygonArea (circlePath \<lparr>vx = Num cx, vy = Num cy\<rparr> (Num r) 40) = Num (20 * r\<^sup>2 * sin (pi / 20))"
proof -
  let ?X = "\<lambda>i::nat. cx + cos (pi * 2 * real i / real (40::nat)) * r"
  let ?Y = "\<lambda>i::nat. cy + sin (pi * 2 * real i / real (40::nat)) * r"
  have c: "circlePath \<lparr>vx = Num cx, vy = Num cy\<rparr> (Num r) 40 =
           map (\<lambda>i. \<lparr>vx = Num (?X i), vy = Num (?Y i)\<rparr>) [0..<40]"
    using assms by (simp add: circlePath_def Let_def)
  have "shoelaceSum (circlePath \<lparr>vx = Num cx, vy = Num cy\<rparr> (Num r) 40) =
        Num (\<Sum>i<40. ?X i * ?Y ((i + 1) mod 40) - ?X ((i + 1) mod 40) * ?Y i)"
    by (rule shoelaceSum_real) (rule c)
  also have "(\<Sum>i<40. ?X i * ?Y ((i + 1) mod 40) - ?X ((i + 1) mod 40) * ?Y i) =
             real 40 * r\<^sup>2 * sin (2 * pi / real 40)"
    by (rule ngon_sum) simp
  finally have s: "shoelaceSum (circlePath \<lparr>vx = Num cx, vy = Num cy\<rparr> (Num r) 40) =
                   Num (40 * r\<^sup>2 * sin (pi / 20))"
    by simp
  have "0 < sin (pi / 20)" by (intro sin_gt_zero) (simp_all add: pi_gt_zero)
  then have "0 \<le> 40 * r\<^sup>2 * sin (pi / 20)" by simp
  then show ?thesis by (simp add: polygonArea_def s)
qed

lemma sheetPoly_1000_500: "polygon (sheetPanel (Num 1000) (Num 500)) = rectPoly 0 0 1000 500"
  by (simp add: sheetPanel_polygon rectPoly_def)

lemma drilled_area:
  "area (attachToPanel [centreHole] (sheetPanel (Num 1000) (Num 500))) = Num (500000 - 320 * sin (pi / 20))"
proof -
  have c: "holeCenter centreHole = \<lparr>vx = Num 500, vy = Num 250\<rparr>"
    by (simp add: holeCenter_def centreHole_def)
  have pip: "pointInPolygon \<lparr>vx = Num 500, vy = Num 250\<rparr> (polygon (sheetPanel (Num 1000) (Num 500)))"
    using centre_in_frame by (simp add: claimsHole_def c sheetPoly_1000_500)
  have ca: "polygonArea (circlePath \<lparr>vx = Num 500, vy = Num 250\<rparr> (Num 4) 40) = Num (20 * 4\<^sup>2 * sin (pi / 20))"
    by (rule circlePath_area) simp
  have len: "length (circlePath \<lparr>vx = Num 500, vy = Num 250\<rparr> (Num 4) 40) = 40"
    by (rule circlePath_length) simp_all
  have s0: "0 < sin (pi / 20)" by (intro sin_gt_zero) (simp_all add: pi_gt_zero)
  have s1: "sin (pi / 20) \<le> 1" by simp
  have pos: "\<not> 500000 - 320 * sin (pi / 20) < 0" using s1 by linarith
  have ar0: "area (sheetPanel (Num 1000) (Num 500)) = Num 500000"
    by (simp add: sheetPanel_def Let_def)
  have h: "hole_x centreHole = Num 500" "hole_y centreHole = Num 250" "hole_diameter centreHole = Num 8"
    by (simp_all add: centreHole_def)
  show ?thesis
    using s0 pos
    by (simp add: attachToPanel_def attachStep_def c pip ca len ar0 h Let_def js_sub_def)
qed

lemma drilled_doc_facts:
  "docSheetW drilledDoc = Num 1000" "docSheetH drilledDoc = Num 500"
  "docRouting drilledDoc = []" "docDrilling drilledDoc = [centreHole]"
  by (simp_all add: drilledDoc_def doc_defs)


subsection \<open>The parser returns\<close>

lemmas str_defs = unlines_def split_def splitLimit_def startsWith_def trim_def isSpace_def nth_opt_def
  removeQuotes_def stripQuotes_def stripTrailingDots_def stripExtension_def

lemmas parser_defs = parseMacros_def parseParamLine_def nameAndValue_def setProp_def parseMaindata_def
  parseRoutingPaths_def parseDrillingFromMacros_def parseContent_def parse_def hasExpression_def
  parseFloatM_def createPanelFromLabel_def bvHoles_def orDefault_def numOr0_def

lemma rbind_simps [simp]:
  "rbind None f = None" "rbind (Some Unknown) f = Some Unknown" "rbind (Some (Known v)) f = f v"
  by (simp_all add: rbind_def)










subsection \<open>Sheet dimensions\<close>








subsection \<open>Drilling\<close>









subsection \<open>Depth of the routing paths\<close>














subsection \<open>Evaluation of the example texts\<close>

lemma loop_lines:
  "split [CHR 0x0A] loopText =
     [''BEGIN MACRO'', ''NAME=LABEL'', ''PARAM,NAME=X,VALUE=for(;;)1.-1.'', ''END MACRO'', []]"
  by (simp add: loopText_def str_defs)

lemma loop_macros:
  "parseMacros [''BEGIN MACRO'', ''NAME=LABEL'', ''PARAM,NAME=X,VALUE=for(;;)1.-1.'', ''END MACRO'', []] =
     [[''_MACRO_TYPE'' \<mapsto> ''LABEL'', ''X'' \<mapsto> ''for(;;)1.-1.'']]"
  by (simp add: str_defs parser_defs Let_def)

lemma loop_expression: "hasExpression ''for(;;)1.-1.''"
  by (simp add: hasExpression_def str_defs)

lemma loop_parseFloat: "parseFloatM demoBuiltins (Some ''for(;;)1.-1.'') = None"
  by (simp add: parseFloatM_def loop_expression demoBuiltins_def)
























section \<open>Properties\<close>

subsection \<open>Y flip\<close>




subsection \<open>Through-cuts\<close>

text \<open>
  C2 (as amended). The kerfs of a document are those of the routing paths classified as
  through-cuts, where a path is a through-cut iff its derived depth is greater than zero
  when the sheet thickness is \<open>\<le> 0\<close> (zero, negative, or unknown and therefore 0), and iff
  its depth is at least \<open>sheetThickness \<times> depthRatio\<close> otherwise; when that gives no kerf and
  there are routing paths, the kerfs are those of all routing paths, which is the case in
  particular when no path is a through-cut.
\<close>

theorem collectKerfs_through_cuts:
  "collectKerfs cl nm opts T routing =
     ebind (addKerfsForPaths cl opts
              (filter (\<lambda>p. if js_le T (Num 0) then js_gt (pathDepth nm p) (Num 0)
                           else js_ge (pathDepth nm p) (js_mul T (optDepthRatio opts))) routing) [])
       (\<lambda>kerfs. if kerfs = [] \<and> routing \<noteq> [] then addKerfsForPaths cl opts routing [] else Inr kerfs) \<and>
   (routing \<noteq> [] \<and> filter (\<lambda>p. isThroughCut nm p T (optDepthRatio opts)) routing = [] \<longrightarrow>
      collectKerfs cl nm opts T routing = addKerfsForPaths cl opts routing []) \<and>
   (sheet_thickness (metadata cix) = None \<longrightarrow> docSheetT cix = Num 0)"
proof -
  have eq: "(\<lambda>p. if js_le T (Num 0) then js_gt (pathDepth nm p) (Num 0)
                 else js_ge (pathDepth nm p) (js_mul T (optDepthRatio opts))) =
            (\<lambda>p. isThroughCut nm p T (optDepthRatio opts))"
    by (rule ext) (simp add: isThroughCut_def)
  have fb: "(\<lambda>kerfs. if kerfs = [] \<and> routing \<noteq> [] then addKerfsForPaths cl opts routing kerfs
                     else Inr kerfs) =
            (\<lambda>kerfs. if kerfs = [] \<and> routing \<noteq> [] then addKerfsForPaths cl opts routing []
                     else Inr kerfs)"
    by (rule ext) simp
  show ?thesis
    unfolding eq by (simp add: collectKerfs_def throughCutKerfs_filter fb docSheetT_def)
qed

theorem collectKerfs_through_cuts_witness:
  "([shallowPath] \<noteq> [] \<and>
    filter (\<lambda>p. isThroughCut noNumber p (Num 18) (optDepthRatio defaultOptions)) [shallowPath] = [] \<and>
    collectKerfs cutClipper noNumber defaultOptions (Num 18) [shallowPath] =
      Inr [rectPath 497000 0 503000 500000]) \<and>
   (sheet_thickness (metadata (sheetDoc (Num 1000) (Num 500) (Num 18)\<lparr>metadata := noMetadata\<rparr>)) = None \<and>
    docSheetT (sheetDoc (Num 1000) (Num 500) (Num 18)\<lparr>metadata := noMetadata\<rparr>) = Num 0)"
  using collectKerfs_through_cuts [of cutClipper noNumber defaultOptions "Num 18" "[shallowPath]"
      "sheetDoc (Num 1000) (Num 500) (Num 18)\<lparr>metadata := noMetadata\<rparr>"]
    shallow_not_cut shallow_kerfs
  by (simp add: noMetadata_def)

text \<open>
  C2 as stated fails at a negative sheet thickness, which is neither zero nor unknown: a
  path of depth 0 has a depth of at least \<open>-18 \<times> 0.8\<close> and is no through-cut.
\<close>

theorem negative_thickness_counterexample:
  "docSheetT (sheetDoc (Num 1000) (Num 500) (Num (- 18))) = Num (- 18) \<and>
   pathDepth noNumber shallowPath = Num 0 \<and>
   js_ge (pathDepth noNumber shallowPath) (js_mul (Num (- 18)) (optDepthRatio defaultOptions)) \<and>
   \<not> isThroughCut noNumber shallowPath (docSheetT (sheetDoc (Num 1000) (Num 500) (Num (- 18))))
       (optDepthRatio defaultOptions)"
  by (simp add: isThroughCut_def pathDepth_def tryParse_def shallowPath_def opt_defs js_ge_def
      js_gt_def doc_defs Let_def)

subsection \<open>Areas\<close>

text \<open>
  C9 (as amended). \<^verbatim>\<open>polygonArea\<close> is never negative. It is \<open>Math.abs(sum) / 2\<close> of the
  shoelace sum, and whatever number the sum is, this is \<open>\<ge> 0\<close> or NaN, and NaN only when
  the sum is NaN; so the area of every ring is \<open>\<ge> 0\<close> or NaN, self-intersecting and
  reversed rings included. With an area threshold \<open>minPanelArea \<ge> 0\<close> the area of every
  panel that the recovery returns is \<open>\<ge> 0\<close> or NaN. (Nothing is said of when the sum is
  NaN: in the code it is so for a NaN coordinate and also where products of finite
  coordinates overflow to infinities, as at coordinates of \<open>10\<^sup>2\<^sup>0\<^sup>0\<close>; finite numbers
  are exact here and do not overflow.)
\<close>

theorem areas_never_negative:
  "polygonArea ring = js_div (js_abs (shoelaceSum ring)) (Num 2) \<and>
   (js_ge (js_div (js_abs s) (Num 2)) (Num 0) \<or> js_div (js_abs s) (Num 2) = NaN) \<and>
   (js_div (js_abs s) (Num 2) = NaN) = (s = NaN) \<and>
   (js_ge (polygonArea ring) (Num 0) \<or> polygonArea ring = NaN) \<and>
   (recoverPanelsFromRouting cl nm cix opts = Inr (ps, cix') \<and> p \<in> set ps \<and>
    js_ge (optMinPanelArea opts) (Num 0) \<longrightarrow> js_ge (area p) (Num 0) \<or> area p = NaN)"
proof (intro conjI impI)
  show "polygonArea ring = js_div (js_abs (shoelaceSum ring)) (Num 2)"
    by (simp add: polygonArea_def)
  show "js_ge (js_div (js_abs s) (Num 2)) (Num 0) \<or> js_div (js_abs s) (Num 2) = NaN"
    by (cases s) (simp_all add: js_ge_def js_inf_of_sign_def)
  show "(js_div (js_abs s) (Num 2) = NaN) = (s = NaN)"
    by (cases s) (simp_all add: js_inf_of_sign_def)
  show "js_ge (polygonArea ring) (Num 0) \<or> polygonArea ring = NaN"
    using polygonArea_not_lt0[of ring] by (simp add: not_lt0_iff)
next
  assume h: "recoverPanelsFromRouting cl nm cix opts = Inr (ps, cix') \<and> p \<in> set ps \<and>
    js_ge (optMinPanelArea opts) (Num 0)"
  then have "areaOk (optMinPanelArea opts) (area p)"
    using recover_areaOk[of cl nm cix opts ps cix'] by (simp add: list_all_iff)
  with h show "js_ge (area p) (Num 0) \<or> area p = NaN" using areaOk_nonneg by blast
qed

theorem areas_never_negative_witness:
  "polygonArea (rectPoly 0 0 100 50) = Num 5000 \<and>
   polygonArea (rev (rectPoly 0 0 100 50)) = Num 5000 \<and>
   polygonArea [\<lparr>vx = Num 0, vy = Num 0\<rparr>, \<lparr>vx = Num 100, vy = Num 50\<rparr>,
                \<lparr>vx = Num 100, vy = Num 0\<rparr>, \<lparr>vx = Num 0, vy = Num 50\<rparr>] = Num 0 \<and>
   shoelaceSum (rev (rectPoly 0 0 100 50)) = Num (- 10000) \<and>
   js_ge (polygonArea (rev (rectPoly 0 0 100 50))) (Num 0) \<and>
   recoverPanelsFromRouting cutClipper noNumber (sheetDoc (Num 100) (Num 50) (Num 18)) defaultOptions =
     Inr ([sheetPanel (Num 100) (Num 50)],
          setRemovedPolygons [] (setKerfPolygons [] (sheetDoc (Num 100) (Num 50) (Num 18)))) \<and>
   sheetPanel (Num 100) (Num 50) \<in> set [sheetPanel (Num 100) (Num 50)] \<and>
   js_ge (optMinPanelArea defaultOptions) (Num 0) \<and>
   area (sheetPanel (Num 100) (Num 50)) = Num 5000 \<and>
   js_ge (area (sheetPanel (Num 100) (Num 50))) (Num 0)"
proof -
  have a: "polygonArea (rectPoly 0 0 100 50) = Num 5000"
    by (simp add: rectPoly_def geom_defs upt4 Let_def)
  have r: "shoelaceSum (rev (rectPoly 0 0 100 50)) = Num (- 10000)"
    by (simp add: rectPoly_def geom_defs upt4 Let_def)
  have ra: "polygonArea (rev (rectPoly 0 0 100 50)) = Num 5000"
    by (simp add: polygonArea_def r)
  have b: "polygonArea [\<lparr>vx = Num 0, vy = Num 0\<rparr>, \<lparr>vx = Num 100, vy = Num 50\<rparr>,
                \<lparr>vx = Num 100, vy = Num 0\<rparr>, \<lparr>vx = Num 0, vy = Num 50\<rparr>] = Num 0"
    by (simp add: geom_defs upt4 Let_def)
  have m: "js_ge (optMinPanelArea defaultOptions) (Num 0)"
    by (simp add: opt_defs js_ge_def)
  have s: "area (sheetPanel (Num 100) (Num 50)) = Num 5000"
    by (simp add: sheetPanel_def Let_def)
  show ?thesis
    using areas_never_negative [of "rev (rectPoly 0 0 100 50)" "Num (- 10000)" cutClipper noNumber
        "sheetDoc (Num 100) (Num 50) (Num 18)" defaultOptions "[sheetPanel (Num 100) (Num 50)]"
        "setRemovedPolygons [] (setKerfPolygons [] (sheetDoc (Num 100) (Num 50) (Num 18)))"
        "sheetPanel (Num 100) (Num 50)"]
      a r ra b m s plain_recover
    by simp
qed

text \<open>
  C9 as stated fails where the shoelace sum or a sheet dimension is NaN: the area of the
  ring or of the returned panel is NaN, which is not \<open>\<ge> 0\<close>. The sum is NaN for a NaN
  coordinate, and where two products are infinite.
\<close>

theorem nan_area_counterexample:
  "polygonArea [\<lparr>vx = NaN, vy = Num 0\<rparr>] = NaN \<and>
   \<not> js_ge (polygonArea [\<lparr>vx = NaN, vy = Num 0\<rparr>]) (Num 0) \<and>
   polygonArea [\<lparr>vx = PInf, vy = PInf\<rparr>, \<lparr>vx = PInf, vy = PInf\<rparr>] = NaN \<and>
   recoverPanelsFromRouting cutClipper noNumber (sheetDoc NaN (Num 50) (Num 18)) defaultOptions =
     Inr ([sheetPanel NaN (Num 50)],
          setRemovedPolygons [] (setKerfPolygons [] (sheetDoc NaN (Num 50) (Num 18)))) \<and>
   area (sheetPanel NaN (Num 50)) = NaN \<and>
   \<not> js_ge (area (sheetPanel NaN (Num 50))) (Num 0)"
  by (simp add: geom_defs upt4 Let_def recoverPanelsFromRouting_def collectKerfs_def doc_defs
      attachDrillHolesToPanels_def sheetPanel_def js_inf_of_sign_def)

subsection \<open>Drill holes\<close>

text \<open>
  C1 (as amended). Every panel that one call of the recovery returns claims exactly the
  drill holes of the document that have a finite centre, a radius that is not \<open>\<le> 0\<close>
  and their centre in the outer ring of that panel, in the order of the document. The
  claims of a panel do not depend on the other panels: a hole whose centre is in the outer
  rings of several panels is claimed by each of them.
\<close>

theorem recover_drill_claims:
  assumes "recoverPanelsFromRouting cl nm cix opts = Inr (ps, cix')" "p \<in> set ps"
  shows "drillHoles p =
     (if filter (claimsHole (polygon p)) (docDrilling cix) = [] then None
      else Some (filter (claimsHole (polygon p)) (docDrilling cix)))"
  using assms(1)
proof (cases rule: recover_cases)
  case early
  with assms(2) show ?thesis by simp
next
  case sheet
  with assms(2) show ?thesis using sheet_drillHoles by blast
next
  case (pieces c rem)
  then have "p \<in> set (survivingPanels cl opts c rem)"
    using assms(2) finalPanels_subset by blast
  then show ?thesis using survivingPanels_drillHoles[of p cl opts c rem] pieces(3) by simp
qed

theorem recover_drill_claims_witness:
  "recoverPanelsFromRouting cutClipper noNumber drilledDoc defaultOptions =
     Inr ([attachToPanel [centreHole] (sheetPanel (Num 1000) (Num 500))],
          setRemovedPolygons [] (setKerfPolygons [] drilledDoc)) \<and>
   attachToPanel [centreHole] (sheetPanel (Num 1000) (Num 500)) \<in>
     set [attachToPanel [centreHole] (sheetPanel (Num 1000) (Num 500))] \<and>
   filter (claimsHole (polygon (attachToPanel [centreHole] (sheetPanel (Num 1000) (Num 500)))))
     (docDrilling drilledDoc) = [centreHole] \<and>
   drillHoles (attachToPanel [centreHole] (sheetPanel (Num 1000) (Num 500))) = Some [centreHole]"
proof -
  have r: "recoverPanelsFromRouting cutClipper noNumber drilledDoc defaultOptions =
      Inr ([attachToPanel [centreHole] (sheetPanel (Num 1000) (Num 500))],
           setRemovedPolygons [] (setKerfPolygons [] drilledDoc))"
    using recover_no_routing[of drilledDoc cutClipper noNumber defaultOptions]
    by (simp add: drilled_doc_facts attachDrillHolesToPanels_def)
  have m: "attachToPanel [centreHole] (sheetPanel (Num 1000) (Num 500)) \<in>
      set [attachToPanel [centreHole] (sheetPanel (Num 1000) (Num 500))]"
    by simp
  have f: "filter (claimsHole (polygon (attachToPanel [centreHole] (sheetPanel (Num 1000) (Num 500)))))
      (docDrilling drilledDoc) = [centreHole]"
    using centre_in_frame by (simp add: attachToPanel_polygon sheetPoly_1000_500 drilled_doc_facts)
  show ?thesis
    using recover_drill_claims [OF r m] r f by simp
qed

text \<open>
  C1 as stated fails where the outer rings of two panels nest. After one closed
  rectangular through-cut the pieces are the island inside the cut and the frame around
  it, whose outer ring is the whole sheet; a drill hole in the island is claimed by both.
\<close>

theorem nested_panels_counterexample:
  "(case recoverPanelsFromRouting ringClipper noNumber ringDoc defaultOptions of
      Inl msg \<Rightarrow> False
    | Inr (ps, c) \<Rightarrow>
        map polygon ps = [rectPoly 103 103 897 397, rectPoly 0 0 1000 500] \<and>
        map drillHoles ps = [Some [centreHole], Some [centreHole]])"
proof -
  let ?c = "setKerfPolygons (filter (\<lambda>poly. length poly \<ge> 3) (map fromPath ringKerf)) ringDoc"
  have d: "docDrilling ?c = [centreHole]" "labelPoints ?c = []"
    by (simp_all add: ring_doc_facts)
  obtain p1 p2 where s: "survivingPanels ringClipper defaultOptions ?c [islandPiece, framePiece] = [p1, p2]"
    "polygon p1 = rectPoly 103 103 897 397" "polygon p2 = rectPoly 0 0 1000 500"
    "drillHoles p1 = Some [centreHole]" "drillHoles p2 = Some [centreHole]"
    using ring_surviving[OF d(1)] by blast
  have "recoverPanelsFromRouting ringClipper noNumber ringDoc defaultOptions =
          Inr ([p1, p2], setRemovedPolygons
                 (removedShapes ringClipper (Num 1000) (Num 500)
                    (filter (\<lambda>poly. length poly \<ge> 3) (map fromPath ringKerf)) [p1, p2]) ?c)"
    using s(1) d(2)
    by (simp add: recoverPanelsFromRouting_def ring_doc_facts ring_kerfs ringKerf_nonempty ring_union
        ring_remaining finalPanels_def labeledPanels_def Let_def)
  then show ?thesis using s by simp
qed

subsection \<open>Degenerate inputs\<close>

text \<open>
  C3 (as amended). If the sheet width or height is \<open>\<le> 0\<close> the recovery returns the empty
  panel list and raises nothing. If both are positive and the document has no routing
  path, it returns exactly one panel: its polygon is the rectangle from (0, 0) whose far
  corner is the width and height rounded to the grid of 1/1000
  (\<open>Math.round(v * 1000) / 1000\<close>), its bounds are \<open>[0, 0, width, height]\<close>, and its area is
  \<open>width \<times> height\<close> when the document has no drill hole.
\<close>

theorem degenerate_inputs:
  "(js_le (docSheetW cix) (Num 0) \<or> js_le (docSheetH cix) (Num 0) \<longrightarrow>
      recoverPanelsFromRouting cl nm cix opts = Inr ([], cix)) \<and>
   (js_gt (docSheetW cix) (Num 0) \<and> js_gt (docSheetH cix) (Num 0) \<and> docRouting cix = [] \<longrightarrow>
      (\<exists>p cix'. recoverPanelsFromRouting cl nm cix opts = Inr ([p], cix') \<and>
         polygon p =
           [\<lparr>vx = Num 0, vy = Num 0\<rparr>,
            \<lparr>vx = js_div (js_round (js_mul (docSheetW cix) (Num 1000))) (Num 1000), vy = Num 0\<rparr>,
            \<lparr>vx = js_div (js_round (js_mul (docSheetW cix) (Num 1000))) (Num 1000),
             vy = js_div (js_round (js_mul (docSheetH cix) (Num 1000))) (Num 1000)\<rparr>,
            \<lparr>vx = Num 0, vy = js_div (js_round (js_mul (docSheetH cix) (Num 1000))) (Num 1000)\<rparr>] \<and>
         panel_bounds p = (Num 0, Num 0, docSheetW cix, docSheetH cix) \<and>
         (docDrilling cix = [] \<longrightarrow> area p = js_mul (docSheetW cix) (docSheetH cix))))"
proof (intro conjI impI)
  assume "js_le (docSheetW cix) (Num 0) \<or> js_le (docSheetH cix) (Num 0)"
  then show "recoverPanelsFromRouting cl nm cix opts = Inr ([], cix)"
    by (auto simp: recoverPanelsFromRouting_def Let_def)
next
  let ?W = "docSheetW cix" and ?H = "docSheetH cix"
  assume h: "js_gt ?W (Num 0) \<and> js_gt ?H (Num 0) \<and> docRouting cix = []"
  let ?p = "if docDrilling cix = [] then sheetPanel ?W ?H
            else attachToPanel (docDrilling cix) (sheetPanel ?W ?H)"
  have r: "recoverPanelsFromRouting cl nm cix opts =
             Inr ([?p], setRemovedPolygons [] (setKerfPolygons [] cix))"
    using h recover_no_routing[of cix cl nm opts] js_gt_not_le
    by (auto simp: attachDrillHolesToPanels_def)
  have poly: "polygon ?p = polygon (sheetPanel ?W ?H)"
    by (simp add: attachToPanel_polygon)
  have bnd: "panel_bounds ?p = (Num 0, Num 0, ?W, ?H)"
    by (auto simp: sheetPanel_def attachToPanel_def Let_def split: prod.splits)
  have ar: "docDrilling cix = [] \<longrightarrow> area ?p = js_mul ?W ?H"
    by (simp add: sheetPanel_def Let_def)
  show "\<exists>p cix'. recoverPanelsFromRouting cl nm cix opts = Inr ([p], cix') \<and>
         polygon p =
           [\<lparr>vx = Num 0, vy = Num 0\<rparr>,
            \<lparr>vx = js_div (js_round (js_mul ?W (Num 1000))) (Num 1000), vy = Num 0\<rparr>,
            \<lparr>vx = js_div (js_round (js_mul ?W (Num 1000))) (Num 1000),
             vy = js_div (js_round (js_mul ?H (Num 1000))) (Num 1000)\<rparr>,
            \<lparr>vx = Num 0, vy = js_div (js_round (js_mul ?H (Num 1000))) (Num 1000)\<rparr>] \<and>
         panel_bounds p = (Num 0, Num 0, ?W, ?H) \<and>
         (docDrilling cix = [] \<longrightarrow> area p = js_mul ?W ?H)"
    using r poly bnd ar sheetPanel_polygon[of ?W ?H] by (intro exI[of _ ?p] exI) simp
qed

theorem degenerate_inputs_witness:
  "(js_le (docSheetW (sheetDoc (Num 0) (Num 500) (Num 18))) (Num 0) \<and>
    recoverPanelsFromRouting cutClipper noNumber (sheetDoc (Num 0) (Num 500) (Num 18)) defaultOptions =
      Inr ([], sheetDoc (Num 0) (Num 500) (Num 18))) \<and>
   (js_gt (docSheetW (sheetDoc (Num 1000) (Num 500) (Num 18))) (Num 0) \<and>
    js_gt (docSheetH (sheetDoc (Num 1000) (Num 500) (Num 18))) (Num 0) \<and>
    docRouting (sheetDoc (Num 1000) (Num 500) (Num 18)) = [] \<and>
    docDrilling (sheetDoc (Num 1000) (Num 500) (Num 18)) = [] \<and>
    (\<exists>p cix'. recoverPanelsFromRouting cutClipper noNumber (sheetDoc (Num 1000) (Num 500) (Num 18))
                 defaultOptions = Inr ([p], cix') \<and>
       polygon p = rectPoly 0 0 1000 500 \<and>
       panel_bounds p = (Num 0, Num 0, Num 1000, Num 500) \<and> area p = Num 500000))"
  using degenerate_inputs [of "sheetDoc (Num 0) (Num 500) (Num 18)" cutClipper noNumber defaultOptions]
    degenerate_inputs [of "sheetDoc (Num 1000) (Num 500) (Num 18)" cutClipper noNumber defaultOptions]
  by (simp add: doc_defs js_gt_def rectPoly_def)

text \<open>
  C3 as stated fails in two ways: a drill hole in the sheet takes the area of its polygon
  from the area of the panel, and a sheet width that is no multiple of 1/1000 is rounded
  in the polygon.
\<close>

theorem drilled_sheet_counterexample:
  "(js_gt (docSheetW drilledDoc) (Num 0) \<and> js_gt (docSheetH drilledDoc) (Num 0) \<and>
    docRouting drilledDoc = [] \<and>
    (case recoverPanelsFromRouting cutClipper noNumber drilledDoc defaultOptions of
       Inl msg \<Rightarrow> False
     | Inr (ps, c) \<Rightarrow> map area ps = [Num (500000 - 320 * sin (pi / 20))]) \<and>
    js_mul (docSheetW drilledDoc) (docSheetH drilledDoc) = Num 500000 \<and>
    Num (500000 - 320 * sin (pi / 20)) \<noteq> Num 500000) \<and>
   (js_gt (Num (1 / 2500)) (Num 0) \<and>
    (case recoverPanelsFromRouting cutClipper noNumber (sheetDoc (Num (1 / 2500)) (Num 1) (Num 18))
            defaultOptions of
       Inl msg \<Rightarrow> False
     | Inr (ps, c) \<Rightarrow> map polygon ps = [rectPoly 0 0 0 1]) \<and>
    rectPoly 0 0 0 1 \<noteq> rectPoly 0 0 (1 / 2500) 1)"
proof -
  have s0: "0 < sin (pi / 20)" by (intro sin_gt_zero) (simp_all add: pi_gt_zero)
  have r1: "recoverPanelsFromRouting cutClipper noNumber drilledDoc defaultOptions =
      Inr ([attachToPanel [centreHole] (sheetPanel (Num 1000) (Num 500))],
           setRemovedPolygons [] (setKerfPolygons [] drilledDoc))"
    using recover_no_routing[of drilledDoc cutClipper noNumber defaultOptions]
    by (simp add: drilled_doc_facts attachDrillHolesToPanels_def)
  have r2: "recoverPanelsFromRouting cutClipper noNumber (sheetDoc (Num (1 / 2500)) (Num 1) (Num 18))
      defaultOptions =
      Inr ([sheetPanel (Num (1 / 2500)) (Num 1)],
           setRemovedPolygons [] (setKerfPolygons [] (sheetDoc (Num (1 / 2500)) (Num 1) (Num 18))))"
    using recover_no_routing[of "sheetDoc (Num (1 / 2500)) (Num 1) (Num 18)" cutClipper noNumber defaultOptions]
    by (simp add: doc_defs attachDrillHolesToPanels_def)
  have p2: "polygon (sheetPanel (Num (1 / 2500)) (Num 1)) = rectPoly 0 0 0 1"
    by (simp add: sheetPanel_polygon rectPoly_def)
  show ?thesis
    using s0 by (simp add: r1 r2 p2 drilled_area drilled_doc_facts js_gt_def rectPoly_def)
qed

subsection \<open>Label filter\<close>

text \<open>
  C6. The label positions are those of the labels of the document whose two coordinates
  are finite. When the recovery comes to a non-empty list of surviving panels (positive
  sheet dimensions, kerfs, their union, the remaining pieces, and the panels of the pieces
  with the drill holes attached), it returns those panels for which some label position is
  in the outer ring and in none of the non-empty holes of the panel, if there is a label
  position and such a panel; otherwise it returns all the surviving panels.
\<close>

theorem label_filter:
  assumes "\<not> js_le (docSheetW cix) (Num 0)" and "\<not> js_le (docSheetH cix) (Num 0)"
    and "collectKerfs cl nm opts (docSheetT cix) (docRouting cix) = Inr kerfs" and "kerfs \<noteq> []"
    and "unionPaths cl kerfs = Inr kerfUnion"
    and "remainingPieces cl [sheetRing (docSheetW cix) (docSheetH cix)] kerfUnion
           (setKerfPolygons
              (if kerfUnion = [] then [] else filter (\<lambda>poly. length poly \<ge> 3) (map fromPath kerfUnion))
              cix) = Inr (remaining, cix1)"
    and "survivingPanels cl opts cix1 remaining = pnls" and "pnls \<noteq> []"
  shows "labelPoints cix =
           map (\<lambda>l. \<lparr>vx = x_position (spec_metadata l), vy = y_position (spec_metadata l)\<rparr>)
             (filter (\<lambda>l. js_isFinite (x_position (spec_metadata l)) \<and>
                          js_isFinite (y_position (spec_metadata l))) (panels cix)) \<and>
         (\<exists>cix2. recoverPanelsFromRouting cl nm cix opts =
            Inr (if labelPoints cix \<noteq> [] \<and>
                    filter (\<lambda>panel. \<exists>pt\<in>set (labelPoints cix). pointInPolygon pt (polygon panel) \<and>
                              (\<forall>hole\<in>set (case panel_holes panel of Some hs \<Rightarrow> hs | None \<Rightarrow> []).
                                  hole = [] \<or> \<not> pointInPolygon pt hole)) pnls \<noteq> []
                 then filter (\<lambda>panel. \<exists>pt\<in>set (labelPoints cix). pointInPolygon pt (polygon panel) \<and>
                              (\<forall>hole\<in>set (case panel_holes panel of Some hs \<Rightarrow> hs | None \<Rightarrow> []).
                                  hole = [] \<or> \<not> pointInPolygon pt hole)) pnls
                 else pnls, cix2))"
proof -
  have lp: "labelPoints cix1 = labelPoints cix"
    using remainingPieces_drilling[OF assms(6)] by simp
  have "\<exists>cix2. recoverPanelsFromRouting cl nm cix opts = Inr (finalPanels (labelPoints cix) pnls, cix2)"
    using assms lp
    by (auto simp: recoverPanelsFromRouting_def Let_def)
  then obtain cix2 where
    "recoverPanelsFromRouting cl nm cix opts = Inr (finalPanels (labelPoints cix) pnls, cix2)" ..
  then have "\<exists>cix2. recoverPanelsFromRouting cl nm cix opts =
            Inr (if labelPoints cix \<noteq> [] \<and>
                    filter (\<lambda>panel. \<exists>pt\<in>set (labelPoints cix). pointInPolygon pt (polygon panel) \<and>
                              (\<forall>hole\<in>set (case panel_holes panel of Some hs \<Rightarrow> hs | None \<Rightarrow> []).
                                  hole = [] \<or> \<not> pointInPolygon pt hole)) pnls \<noteq> []
                 then filter (\<lambda>panel. \<exists>pt\<in>set (labelPoints cix). pointInPolygon pt (polygon panel) \<and>
                              (\<forall>hole\<in>set (case panel_holes panel of Some hs \<Rightarrow> hs | None \<Rightarrow> []).
                                  hole = [] \<or> \<not> pointInPolygon pt hole)) pnls
                 else pnls, cix2)"
    unfolding finalPanels_def labeledPanels_filter by (intro exI[of _ cix2]) simp
  with labelPoints_filter[of cix] show ?thesis by (rule conjI)
qed

theorem label_filter_witness:
  "(\<not> js_le (docSheetW cutDoc) (Num 0) \<and> \<not> js_le (docSheetH cutDoc) (Num 0) \<and>
    collectKerfs cutClipper noNumber defaultOptions (docSheetT cutDoc) (docRouting cutDoc) =
      Inr [rectPath 497000 0 503000 500000] \<and>
    unionPaths cutClipper [rectPath 497000 0 503000 500000] = Inr [rectPath 497000 0 503000 500000] \<and>
    survivingPanels cutClipper defaultOptions cutDoc cutPieces =
      [rectPanel 0 0 497 500, rectPanel 503 0 1000 500] \<and>
    labelPoints cutDoc = [\<lparr>vx = Num 200, vy = Num 250\<rparr>] \<and>
    (\<exists>cix2. recoverPanelsFromRouting cutClipper noNumber cutDoc defaultOptions =
       Inr ([rectPanel 0 0 497 500], cix2))) \<and>
   (labelPoints strayLabelDoc = [\<lparr>vx = Num 500, vy = Num 250\<rparr>] \<and>
    (\<exists>cix2. recoverPanelsFromRouting cutClipper noNumber strayLabelDoc defaultOptions =
       Inr ([rectPanel 0 0 497 500, rectPanel 503 0 1000 500], cix2))) \<and>
   (survivingPanels ringClipper defaultOptions (moatDoc [labelAt ''C'' 200 200]) [islandPiece, framePiece] =
      [rectPanel 103 103 897 397, framePanel] \<and>
    panel_holes framePanel = Some [rectPoly 97 97 903 403] \<and>
    pointInPolygon \<lparr>vx = Num 200, vy = Num 200\<rparr> (polygon framePanel) \<and>
    pointInPolygon \<lparr>vx = Num 200, vy = Num 200\<rparr> (rectPoly 97 97 903 403) \<and>
    (\<exists>cix2. recoverPanelsFromRouting ringClipper noNumber (moatDoc [labelAt ''C'' 200 200]) defaultOptions =
       Inr ([rectPanel 103 103 897 397], cix2)) \<and>
    (\<exists>cix2. recoverPanelsFromRouting ringClipper noNumber (moatDoc [labelAt ''D'' 50 50]) defaultOptions =
       Inr ([framePanel], cix2)) \<and>
    (\<exists>cix2. recoverPanelsFromRouting ringClipper noNumber (moatDoc [labelAt ''E'' 100 100]) defaultOptions =
       Inr ([rectPanel 103 103 897 397, framePanel], cix2)))"
proof -
  let ?strip = "rectPath 497000 0 503000 500000"
  let ?kp = "if [?strip] = [] then [] else filter (\<lambda>poly. length poly \<ge> 3) (map fromPath [?strip])"
  let ?rk = "if ringKerf = [] then [] else filter (\<lambda>poly. length poly \<ge> 3) (map fromPath ringKerf)"
  let ?keep = "\<lambda>lps panel. \<exists>pt\<in>set lps. pointInPolygon pt (polygon panel) \<and>
                  (\<forall>hole\<in>set (case panel_holes panel of Some hs \<Rightarrow> hs | None \<Rightarrow> []).
                      hole = [] \<or> \<not> pointInPolygon pt hole)"
  have f: "cutDoc = cutDoc\<lparr>panels := [labelAt ''A'' 200 250]\<rparr>"
    by (simp add: cutDoc_def)
  have w: "\<exists>cix2. recoverPanelsFromRouting cutClipper noNumber (cutDoc\<lparr>panels := ls\<rparr>) defaultOptions =
     Inr (if labelPoints (cutDoc\<lparr>panels := ls\<rparr>) \<noteq> [] \<and>
             filter (?keep (labelPoints (cutDoc\<lparr>panels := ls\<rparr>)))
               [rectPanel 0 0 497 500, rectPanel 503 0 1000 500] \<noteq> []
          then filter (?keep (labelPoints (cutDoc\<lparr>panels := ls\<rparr>)))
                 [rectPanel 0 0 497 500, rectPanel 503 0 1000 500]
          else [rectPanel 0 0 497 500, rectPanel 503 0 1000 500], cix2)" for ls
  proof -
    let ?D = "cutDoc\<lparr>panels := ls\<rparr>"
    let ?c = "setKerfPolygons ?kp ?D"
    have a1: "\<not> js_le (docSheetW ?D) (Num 0)" and a2: "\<not> js_le (docSheetH ?D) (Num 0)"
      by (simp_all add: cut_doc_facts)
    have k: "collectKerfs cutClipper noNumber defaultOptions (docSheetT ?D) (docRouting ?D) = Inr [?strip]"
      by (simp add: cut_doc_facts cut_kerfs)
    have nk: "[?strip] \<noteq> []" by simp
    have r: "remainingPieces cutClipper [sheetRing (docSheetW ?D) (docSheetH ?D)] [?strip] ?c =
               Inr (cutPieces, ?c)"
      by (simp only: cut_doc_facts cut_remaining)
    have sv: "survivingPanels cutClipper defaultOptions ?c cutPieces =
               [rectPanel 0 0 497 500, rectPanel 503 0 1000 500]"
      by (rule cut_surviving) (simp add: cut_doc_facts)
    show ?thesis
      by (rule conjunct2 [OF label_filter [OF a1 a2 k nk cut_union r sv]]) simp
  qed
  have m: "\<exists>cix2. recoverPanelsFromRouting ringClipper noNumber (moatDoc ls) defaultOptions =
     Inr (if labelPoints (moatDoc ls) \<noteq> [] \<and>
             filter (?keep (labelPoints (moatDoc ls))) [rectPanel 103 103 897 397, framePanel] \<noteq> []
          then filter (?keep (labelPoints (moatDoc ls))) [rectPanel 103 103 897 397, framePanel]
          else [rectPanel 103 103 897 397, framePanel], cix2)" for ls
  proof -
    let ?D = "moatDoc ls"
    let ?c = "setKerfPolygons ?rk ?D"
    have a1: "\<not> js_le (docSheetW ?D) (Num 0)" and a2: "\<not> js_le (docSheetH ?D) (Num 0)"
      by (simp_all add: moat_doc_facts)
    have k: "collectKerfs ringClipper noNumber defaultOptions (docSheetT ?D) (docRouting ?D) = Inr ringKerf"
      by (simp add: moat_doc_facts ring_kerfs)
    have r: "remainingPieces ringClipper [sheetRing (docSheetW ?D) (docSheetH ?D)] ringKerf ?c =
               Inr ([islandPiece, framePiece], ?c)"
      by (simp only: moat_doc_facts ring_remaining)
    have sv: "survivingPanels ringClipper defaultOptions ?c [islandPiece, framePiece] =
               [rectPanel 103 103 897 397, framePanel]"
      by (rule moat_surviving) (simp add: moat_doc_facts)
    show ?thesis
      by (rule conjunct2 [OF label_filter [OF a1 a2 k ringKerf_nonempty ring_union r sv]]) simp
  qed
  have s: "survivingPanels cutClipper defaultOptions cutDoc cutPieces =
      [rectPanel 0 0 497 500, rectPanel 503 0 1000 500]"
    by (rule cut_surviving) (use cut_doc_facts(5)[of "[labelAt ''A'' 200 250]"] f in simp)
  have ms: "survivingPanels ringClipper defaultOptions (moatDoc [labelAt ''C'' 200 200])
      [islandPiece, framePiece] = [rectPanel 103 103 897 397, framePanel]"
    by (rule moat_surviving) (simp add: moat_doc_facts)
  have ph: "polygon (rectPanel a b c d) = rectPoly a b c d" "panel_holes (rectPanel a b c d) = Some []"
    "polygon framePanel = rectPoly 0 0 1000 500" "panel_holes framePanel = Some [rectPoly 97 97 903 403]"
    for a b c d
    by (simp_all add: rectPanel_def framePanel_def)
  have c1: "\<exists>cix2. recoverPanelsFromRouting cutClipper noNumber cutDoc defaultOptions =
       Inr ([rectPanel 0 0 497 500], cix2)"
    using w[of "[labelAt ''A'' 200 250]"] f
    by (simp add: cut_labels ph points_in_rects)
  have c2: "\<exists>cix2. recoverPanelsFromRouting cutClipper noNumber strayLabelDoc defaultOptions =
       Inr ([rectPanel 0 0 497 500, rectPanel 503 0 1000 500], cix2)"
    using w[of "[labelAt ''B'' 500 250]"]
    by (simp add: cut_labels ph points_in_rects strayLabelDoc_def[symmetric])
  have m1: "\<exists>cix2. recoverPanelsFromRouting ringClipper noNumber (moatDoc [labelAt ''C'' 200 200])
       defaultOptions = Inr ([rectPanel 103 103 897 397], cix2)"
    using m[of "[labelAt ''C'' 200 200]"]
    by (simp add: moat_doc_facts ph points_in_rects rect_nonempty)
  have m2: "\<exists>cix2. recoverPanelsFromRouting ringClipper noNumber (moatDoc [labelAt ''D'' 50 50])
       defaultOptions = Inr ([framePanel], cix2)"
    using m[of "[labelAt ''D'' 50 50]"]
    by (simp add: moat_doc_facts ph points_in_rects rect_nonempty)
  have m3: "\<exists>cix2. recoverPanelsFromRouting ringClipper noNumber (moatDoc [labelAt ''E'' 100 100])
       defaultOptions = Inr ([rectPanel 103 103 897 397, framePanel], cix2)"
    using m[of "[labelAt ''E'' 100 100]"]
    by (simp add: moat_doc_facts ph points_in_rects rect_nonempty)
  show ?thesis
    using c1 c2 m1 m2 m3 s ms cut_doc_facts[of "[labelAt ''A'' 200 250]"] f
    by (simp add: cut_labels cut_kerfs cut_union ph points_in_rects)
qed


subsection \<open>Derived depth\<close>



subsection \<open>Drill repeat expansion\<close>



subsection \<open>Sheet metadata\<close>



subsection \<open>The parser and \<^verbatim>\<open>eval\<close>\<close>

text \<open>
  C4 as stated (\<^verbatim>\<open>parse\<close> returns a document for every text) fails on a text that
  \<^verbatim>\<open>eval\<close> does not leave: a label whose X value is \<^verbatim>\<open>for(;;)1.-1.\<close> has a dot, a minus
  sign and three pieces between dots, so that \<^verbatim>\<open>this.parseFloat\<close> hands it to \<^verbatim>\<open>eval\<close>,
  which runs forever, and \<^verbatim>\<open>parse\<close> returns no document. By lemma \<open>parse_total\<close> it
  returns one whenever every evaluated text returns or throws and touches nothing else,
  and no repeat count is infinite.
\<close>

theorem parse_does_not_return:
  "hasExpression ''for(;;)1.-1.'' \<and>
   parseFloatM demoBuiltins (Some ''for(;;)1.-1.'') = None \<and>
   parse demoBuiltins loopText ''upload.cix'' = None"
  by (simp add: loop_expression loop_parseFloat parse_def parseContent_def loop_lines loop_macros
      createPanelFromLabel_def Let_def)

end
